theory Spec2Isabelle
  imports Main "HOL-Library.Sublist"
begin

section \<open>PostgreSQL MCP server (index.ts)\<close>

text \<open>
  The server is one TypeScript module. Its behaviour is made of
  \<^item> the start-up statements at module level (resolution of the database URL),
  \<^item> three tool handlers, each an \<open>async\<close> function that leases a pooled connection,
  \<^item> the event handlers of the process and of the transport (shutdown, reconnection,
    heartbeat).
  Everything the module does to its collaborators (the pool, a leased client, the
  transport, the console, the process) is recorded as an \<open>event\<close>; what the collaborators
  answer (whether and when a promise settles, and with what) is a parameter of the model.
\<close>

subsection \<open>Configuration constants\<close>

type_synonym ms = nat

definition API_TIMEOUT_MS :: ms where
  "API_TIMEOUT_MS = 30000"

definition HEARTBEAT_INTERVAL_MS :: int where
  "HEARTBEAT_INTERVAL_MS = 5000"

definition MAX_RECONNECT_ATTEMPTS :: nat where
  "MAX_RECONNECT_ATTEMPTS = 5"

definition RECONNECT_DELAY_MS :: int where
  "RECONNECT_DELAY_MS = 1000"

subsection \<open>Values\<close>

text \<open>A thrown value: \<open>new Error(message)\<close>, or the error object a collaborator rejects with.\<close>

datatype jserror = Error (message: string)

text \<open>
  JavaScript values as far as the handlers touch them: a result row is an object from
  field names to values.
\<close>

datatype jsval =
    Undefined
  | Null
  | Bool bool
  | Num int
  | Str string
  | Arr "jsval list"
  | Obj "(string \<times> jsval) list"

type_synonym row = "(string \<times> jsval) list"

text \<open>
  The text of a content block is either a literal string or \<open>JSON.stringify(v, null, 2)\<close>;
  the serialiser belongs to the language, so its output is represented by the value it
  was given.
\<close>

datatype body = Plain string | JSON_stringify jsval

datatype content = Text_block body

type_synonym response = "content list"

subsection \<open>Events\<close>

datatype event =
    Debug string
  | Log_error string jserror
  | Log_stack jserror
  | Log_rejection jserror
  | Console_error string
  | Warn_rollback jserror
  | Pool_create string
  | Pool_connect
  | Client_query string "string list"
  | Client_release
  | Pool_end
  | Server_connect
  | Transport_close
  | Set_timeout int
  | Process_exit nat

text \<open>\<open>Number.prototype.toString\<close> in a template string, for a natural number.\<close>

definition digit :: "nat \<Rightarrow> char" where
  "digit n = ''0123456789'' ! n"

fun dec :: "nat \<Rightarrow> string" where
  "dec n = (if n < 10 then [digit n] else dec (n div 10) @ [digit (n mod 10)])"

declare dec.simps [simp del]

text \<open>\<open>String.prototype.includes\<close>.\<close>

fun str_includes :: "string \<Rightarrow> string \<Rightarrow> bool" where
  "str_includes [] needle = (needle = [])"
| "str_includes (c # cs) needle = (prefix needle (c # cs) \<or> str_includes cs needle)"

text \<open>
  \<open>debugLog\<close> writes to the error stream only when \<open>DEBUG\<close> is set; \<open>handleError\<close>
  writes the context line and, the error being an \<open>Error\<close> object, its stack trace.
  (No error in this model carries a \<open>response.data\<close> field, so the "API Response" line is
  never written.)
\<close>

definition debugLog :: "bool \<Rightarrow> string \<Rightarrow> event list" where
  "debugLog DEBUG msg = (if DEBUG then [Debug msg] else [])"

definition handleError :: "jserror \<Rightarrow> string \<Rightarrow> event list" where
  "handleError error context = [Log_error context error, Log_stack error]"

subsection \<open>Start-up: the database URL\<close>

text \<open>
  \<open>process.env.DATABASE_URL\<close> is \<open>None\<close> when the variable is undefined. The test
  \<open>if (process.env.DATABASE_URL)\<close> is a truthiness test: the empty string fails it.
  \<open>process.argv\<close> holds the interpreter, the script and then the arguments.
  The result is the list of effects up to and including the construction of the pool, and
  either the exit code or the resolved URL.
\<close>

definition usage_message :: string where
  "usage_message = ''Please provide a database URL as a command-line argument or set DATABASE_URL environment variable''"

definition databaseUrl_from_argv :: "bool \<Rightarrow> string list \<Rightarrow> event list \<times> (nat + string)" where
  "databaseUrl_from_argv DEBUG argv =
     (case drop 2 argv of
        [] \<Rightarrow> ([Console_error usage_message, Process_exit 1], Inl 1)
      | arg0 # _ \<Rightarrow> (debugLog DEBUG ''Using database URL from command line argument'', Inr arg0))"

definition resolve_databaseUrl :: "bool \<Rightarrow> string option \<Rightarrow> string list \<Rightarrow> event list \<times> (nat + string)" where
  "resolve_databaseUrl DEBUG env_DATABASE_URL argv =
     (case env_DATABASE_URL of
        None \<Rightarrow> databaseUrl_from_argv DEBUG argv
      | Some url \<Rightarrow>
          if url \<noteq> [] then (debugLog DEBUG ''Using DATABASE_URL from environment variable'', Inr url)
          else databaseUrl_from_argv DEBUG argv)"

definition module_init :: "bool \<Rightarrow> string option \<Rightarrow> string list \<Rightarrow> event list \<times> (nat + string)" where
  "module_init DEBUG env_DATABASE_URL argv =
     (case resolve_databaseUrl DEBUG env_DATABASE_URL argv of
        (es, Inl code) \<Rightarrow> (debugLog DEBUG ''Environment variables loaded'' @ es, Inl code)
      | (es, Inr databaseUrl) \<Rightarrow>
          (debugLog DEBUG ''Environment variables loaded'' @ es @ [Pool_create databaseUrl]
             @ debugLog DEBUG ''MCP server created'',
           Inr databaseUrl))"

subsection \<open>Promises and asynchronous functions\<close>

text \<open>
  A promise handed out by a collaborator either never settles, or settles a number of
  milliseconds after the call that created it. An asynchronous computation started at a
  time yields the events it causes, each with its time, and how it completes.
  Events are listed in program order; the callback of a promise that nobody awaits runs
  when that promise settles, so its event carries a later time than its neighbours.
\<close>

datatype 'a promise = Pending | Fulfills ms 'a | Rejects ms jserror

datatype 'a completion = Never | Returned ms 'a | Thrown ms jserror

type_synonym trace = "(ms \<times> event) list"

type_synonym 'a async = "ms \<Rightarrow> trace \<times> 'a completion"

definition returns :: "'a \<Rightarrow> 'a async" where
  "returns v t = ([], Returned t v)"

definition throws :: "jserror \<Rightarrow> 'a async" where
  "throws e t = ([], Thrown t e)"

definition emit :: "event list \<Rightarrow> unit async" where
  "emit evs t = (map (Pair t) evs, Returned t ())"

definition await :: "'a promise \<Rightarrow> 'a async" where
  "await p t =
     ([], case p of
            Pending \<Rightarrow> Never
          | Fulfills d v \<Rightarrow> Returned (t + d) v
          | Rejects d e \<Rightarrow> Thrown (t + d) e)"

definition bind :: "'a async \<Rightarrow> ('a \<Rightarrow> 'b async) \<Rightarrow> 'b async" where
  "bind m f t =
     (case m t of
        (es, Returned t' v) \<Rightarrow> (case f v t' of (es', c) \<Rightarrow> (es @ es', c))
      | (es, Thrown t' e) \<Rightarrow> (es, Thrown t' e)
      | (es, Never) \<Rightarrow> (es, Never))"

definition try_catch :: "'a async \<Rightarrow> (jserror \<Rightarrow> 'a async) \<Rightarrow> 'a async" where
  "try_catch m handler t =
     (case m t of
        (es, Thrown t' e) \<Rightarrow> (case handler e t' of (es', c) \<Rightarrow> (es @ es', c))
      | (es, Returned t' v) \<Rightarrow> (es, Returned t' v)
      | (es, Never) \<Rightarrow> (es, Never))"

text \<open>
  \<open>try { ... } finally { fin }\<close>: the block \<open>fin\<close> runs when the body returns and when it
  throws, and the body's outcome stands unless \<open>fin\<close> itself throws or hangs. A body that
  never completes never reaches \<open>fin\<close>.
\<close>

definition try_finally :: "'a async \<Rightarrow> unit async \<Rightarrow> 'a async" where
  "try_finally m fin t =
     (case m t of
        (es, Never) \<Rightarrow> (es, Never)
      | (es, Returned t' v) \<Rightarrow>
          (case fin t' of
             (es', Returned t'' _) \<Rightarrow> (es @ es', Returned t'' v)
           | (es', Thrown t'' e') \<Rightarrow> (es @ es', Thrown t'' e')
           | (es', Never) \<Rightarrow> (es @ es', Never))
      | (es, Thrown t' e) \<Rightarrow>
          (case fin t' of
             (es', Returned t'' _) \<Rightarrow> (es @ es', Thrown t'' e)
           | (es', Thrown t'' e') \<Rightarrow> (es @ es', Thrown t'' e')
           | (es', Never) \<Rightarrow> (es @ es', Never)))"

text \<open>
  \<open>createTimeout\<close>: a promise that rejects after \<open>ms\<close> milliseconds.
  \<open>Promise.race\<close> settles as the first of its arguments to settle; when both settle in
  the same millisecond the model lets the first listed win.
\<close>

definition createTimeout :: "ms \<Rightarrow> string \<Rightarrow> 'a promise" where
  "createTimeout ms msg = Rejects ms (Error (''Timeout after '' @ dec ms @ ''ms: '' @ msg))"

definition settles_after :: "'a promise \<Rightarrow> ms option" where
  "settles_after p = (case p of Pending \<Rightarrow> None | Fulfills d _ \<Rightarrow> Some d | Rejects d _ \<Rightarrow> Some d)"

definition race :: "'a promise \<Rightarrow> 'a promise \<Rightarrow> 'a promise" where
  "race p q =
     (case settles_after p of
        None \<Rightarrow> q
      | Some d \<Rightarrow> (case settles_after q of None \<Rightarrow> p | Some d' \<Rightarrow> if d \<le> d' then p else q))"

definition withTimeout :: "bool \<Rightarrow> 'a promise \<Rightarrow> ms \<Rightarrow> string \<Rightarrow> 'a async" where
  "withTimeout DEBUG promise timeoutMs context =
     try_catch (await (race promise (createTimeout timeoutMs context)))
       (\<lambda>error.
          bind (emit (if str_includes (message error) ''Timeout after''
                      then debugLog DEBUG (''Operation timed out: '' @ context) else []))
            (\<lambda>_. throws error))"

subsection \<open>The pool and a leased client\<close>

text \<open>
  \<open>pool\<close> is what \<open>pool.connect()\<close> answers. \<open>db n command values\<close> is what the leased client
  answers to its \<open>n\<close>-th query (counting from 0). \<open>client.query\<close> sends the command at
  once and returns its promise.
\<close>

type_synonym engine = "nat \<Rightarrow> string \<Rightarrow> string list \<Rightarrow> row list promise"

definition client_query :: "engine \<Rightarrow> nat \<Rightarrow> string \<Rightarrow> string list \<Rightarrow> row list promise async" where
  "client_query db n command values t =
     ([(t, Client_query command values)], Returned t (db n command values))"

definition executeDbQuery :: "unit promise \<Rightarrow> (unit \<Rightarrow> 'a async) \<Rightarrow> string \<Rightarrow> 'a async" where
  "executeDbQuery pool queryFn errorContext =
     bind (emit [Pool_connect]) (\<lambda>_.
     bind (await pool) (\<lambda>client.
       try_finally
         (try_catch (queryFn client)
            (\<lambda>error. bind (emit (handleError error errorContext)) (\<lambda>_. throws error)))
         (emit [Client_release])))"

subsection \<open>The three tools\<close>

definition BEGIN_READ_ONLY :: string where
  "BEGIN_READ_ONLY = ''BEGIN TRANSACTION READ ONLY''"

definition ROLLBACK :: string where
  "ROLLBACK = ''ROLLBACK''"

definition LIST_TABLES_SQL :: string where
  "LIST_TABLES_SQL =
     ''SELECT table_name FROM information_schema.tables WHERE table_schema = 'public'' @ [CHR 0x27]"

definition DESCRIBE_TABLE_SQL :: string where
  "DESCRIBE_TABLE_SQL =
     ''SELECT column_name, data_type, is_nullable, column_default FROM information_schema.columns WHERE table_name = $1''"

text \<open>
  The \<open>finally\<close> block of the query tool: \<open>ROLLBACK\<close> is sent and not awaited; if it is
  rejected later, a warning is printed then.
\<close>

definition rollback_unawaited :: "engine \<Rightarrow> nat \<Rightarrow> unit async" where
  "rollback_unawaited db n t =
     ((t, Client_query ROLLBACK []) #
        (case db n ROLLBACK [] of Rejects d e \<Rightarrow> [(t + d, Warn_rollback e)] | _ \<Rightarrow> []),
      Returned t ())"

definition postgres_query :: "bool \<Rightarrow> unit promise \<Rightarrow> engine \<Rightarrow> string \<Rightarrow> response async" where
  "postgres_query DEBUG pool db sql =
     try_catch
       (bind (emit (debugLog DEBUG (''Executing SQL query: '' @ sql))) (\<lambda>_.
          executeDbQuery pool
            (\<lambda>client.
               bind (client_query db 0 BEGIN_READ_ONLY []) (\<lambda>began.
               bind (await began) (\<lambda>_.
                 try_finally
                   (bind (client_query db 1 sql []) (\<lambda>running.
                    bind (withTimeout DEBUG running API_TIMEOUT_MS ''Executing SQL query'') (\<lambda>rows.
                    bind (emit (debugLog DEBUG
                            (''Query executed successfully, returned '' @ dec (length rows) @ '' rows''))) (\<lambda>_.
                    returns [Text_block (JSON_stringify (Arr (map Obj rows)))]))))
                   (rollback_unawaited db 2))))
            ''Failed to execute SQL query''))
       (\<lambda>error. bind (emit (handleError error ''Failed to execute SQL query'')) (\<lambda>_. throws error))"

text \<open>\<open>row.table_name\<close>: the field's value, \<open>undefined\<close> when the row has no such field.\<close>

definition field :: "row \<Rightarrow> string \<Rightarrow> jsval" where
  "field r name = (case map_of r name of None \<Rightarrow> Undefined | Some v \<Rightarrow> v)"

definition postgres_list_tables :: "bool \<Rightarrow> unit promise \<Rightarrow> engine \<Rightarrow> response async" where
  "postgres_list_tables DEBUG pool db =
     try_catch
       (bind (emit (debugLog DEBUG ''Listing database tables'')) (\<lambda>_.
          executeDbQuery pool
            (\<lambda>client.
               bind (client_query db 0 LIST_TABLES_SQL []) (\<lambda>running.
               bind (withTimeout DEBUG running API_TIMEOUT_MS ''Listing database tables'') (\<lambda>rows.
               bind (emit (debugLog DEBUG (''Found '' @ dec (length rows) @ '' tables''))) (\<lambda>_.
               returns [Text_block (JSON_stringify (Arr (map (\<lambda>row. field row ''table_name'') rows)))]))))
            ''Failed to list database tables''))
       (\<lambda>error. bind (emit (handleError error ''Failed to list database tables'')) (\<lambda>_. throws error))"

definition postgres_describe_table :: "bool \<Rightarrow> unit promise \<Rightarrow> engine \<Rightarrow> string \<Rightarrow> response async" where
  "postgres_describe_table DEBUG pool db tableName =
     try_catch
       (bind (emit (debugLog DEBUG (''Describing table: '' @ tableName))) (\<lambda>_.
          executeDbQuery pool
            (\<lambda>client.
               bind (client_query db 0 DESCRIBE_TABLE_SQL [tableName]) (\<lambda>running.
               bind (withTimeout DEBUG running API_TIMEOUT_MS (''Describing table '' @ tableName)) (\<lambda>rows.
               bind (emit (debugLog DEBUG
                       (''Table description retrieved with '' @ dec (length rows) @ '' columns''))) (\<lambda>_.
               if length rows = 0 then
                 returns [Text_block (Plain (''Table '' @ [CHR 0x27] @ tableName @ [CHR 0x27]
                                             @ '' not found or has no columns.''))]
               else
                 returns [Text_block (JSON_stringify (Arr (map Obj rows)))]))))
            (''Failed to describe table '' @ tableName)))
       (\<lambda>error.
          bind (emit (handleError error (''Failed to describe table '' @ tableName))) (\<lambda>_. throws error))"

text \<open>The registry of \<open>server.tool\<close>: the operation named in a request and its handler.\<close>

datatype operation =
    Postgres_query string
  | Postgres_list_tables
  | Postgres_describe_table string

fun tool :: "bool \<Rightarrow> unit promise \<Rightarrow> engine \<Rightarrow> operation \<Rightarrow> response async" where
  "tool DEBUG pool db (Postgres_query sql) = postgres_query DEBUG pool db sql"
| "tool DEBUG pool db Postgres_list_tables = postgres_list_tables DEBUG pool db"
| "tool DEBUG pool db (Postgres_describe_table tableName) = postgres_describe_table DEBUG pool db tableName"

subsection \<open>Start-up: verification of the database and attachment of the transport\<close>

text \<open>
  \<open>process.exit\<close> does not return: the computation that calls it never completes, and
  nothing follows the exit in the trace.
\<close>

definition process_exit :: "nat \<Rightarrow> 'a async" where
  "process_exit code t = ([(t, Process_exit code)], Never)"

definition startServer :: "bool \<Rightarrow> unit promise \<Rightarrow> unit promise \<Rightarrow> unit async" where
  "startServer DEBUG pool attach =
     bind
       (try_catch
          (bind (emit (debugLog DEBUG ''Verifying database connection...'' @ [Pool_connect])) (\<lambda>_.
           bind (await pool) (\<lambda>client.
           emit (Client_release # debugLog DEBUG ''Database connection verified''))))
          (\<lambda>error.
             bind (emit (handleError error ''Failed to verify database connection'')) (\<lambda>_.
             process_exit 1)))
       (\<lambda>_.
     bind
       (try_catch
          (bind (emit (debugLog DEBUG ''Connecting to MCP transport...'' @ [Server_connect])) (\<lambda>_.
           bind (await attach) (\<lambda>_.
           emit (debugLog DEBUG ''MCP server connected and ready''))))
          (\<lambda>error.
             bind (emit (handleError error ''Failed to connect MCP server'')) (\<lambda>_.
             process_exit 1)))
       (\<lambda>_. emit (debugLog DEBUG ''Server startup complete'')))"

text \<open>
  The program from its first statement: the module-level statements run at once, and
  \<open>startServer\<close> is called only if they did not exit.
\<close>

definition program :: "bool \<Rightarrow> string option \<Rightarrow> string list \<Rightarrow> unit promise \<Rightarrow> unit promise \<Rightarrow> unit async" where
  "program DEBUG env_DATABASE_URL argv pool attach t =
     (case module_init DEBUG env_DATABASE_URL argv of
        (es, Inl code) \<Rightarrow> (map (Pair t) es, Never)
      | (es, Inr databaseUrl) \<Rightarrow>
          (case startServer DEBUG pool attach t of (es', c) \<Rightarrow> (map (Pair t) es @ es', c)))"

text \<open>What a trace did to the collaborators, by kind of event.\<close>

definition exit_codes :: "event list \<Rightarrow> nat list" where
  "exit_codes es = concat (map (\<lambda>e. case e of Process_exit c \<Rightarrow> [c] | _ \<Rightarrow> []) es)"

definition pools_created :: "event list \<Rightarrow> string list" where
  "pools_created es = concat (map (\<lambda>e. case e of Pool_create url \<Rightarrow> [url] | _ \<Rightarrow> []) es)"

subsection \<open>Observations on the trace of a tool call\<close>

text \<open>The commands sent on the leased client, and the times the client was released.\<close>

definition commands :: "trace \<Rightarrow> (ms \<times> string) list" where
  "commands tr = concat (map (\<lambda>(t, e). case e of Client_query c _ \<Rightarrow> [(t, c)] | _ \<Rightarrow> []) tr)"

definition releases :: "trace \<Rightarrow> ms list" where
  "releases tr = concat (map (\<lambda>(t, e). if e = Client_release then [t] else []) tr)"

text \<open>What was done with the leased client, in program order.\<close>

definition on_client :: "trace \<Rightarrow> event list" where
  "on_client tr =
     filter (\<lambda>e. case e of Client_query _ _ \<Rightarrow> True | Client_release \<Rightarrow> True | _ \<Rightarrow> False)
       (map snd tr)"

text \<open>
  The call each tool wraps in \<open>withTimeout\<close>: its number on the client, its text, its
  values, and the context string of its timeout.
\<close>

fun wrapped_call :: "operation \<Rightarrow> nat \<times> string \<times> string list" where
  "wrapped_call (Postgres_query sql) = (1, sql, [])"
| "wrapped_call Postgres_list_tables = (0, LIST_TABLES_SQL, [])"
| "wrapped_call (Postgres_describe_table tableName) = (0, DESCRIBE_TABLE_SQL, [tableName])"

fun timeout_context :: "operation \<Rightarrow> string" where
  "timeout_context (Postgres_query sql) = ''Executing SQL query''"
| "timeout_context Postgres_list_tables = ''Listing database tables''"
| "timeout_context (Postgres_describe_table tableName) = ''Describing table '' @ tableName"

definition in_flight :: "engine \<Rightarrow> operation \<Rightarrow> row list promise" where
  "in_flight db op = (case wrapped_call op of (n, command, values) \<Rightarrow> db n command values)"

text \<open>
  The time at which the wrapped call is sent, if the tool gets that far: the connection
  must have been leased and, for the query tool, \<open>BEGIN\<close> must have been answered.
\<close>

definition sent_at :: "unit promise \<Rightarrow> engine \<Rightarrow> operation \<Rightarrow> ms \<Rightarrow> ms option" where
  "sent_at pool db op t0 =
     (case pool of
        Fulfills dc _ \<Rightarrow>
          (case op of
             Postgres_query sql \<Rightarrow>
               (case db 0 BEGIN_READ_ONLY [] of Fulfills d0 _ \<Rightarrow> Some (t0 + dc + d0) | _ \<Rightarrow> None)
           | _ \<Rightarrow> Some (t0 + dc))
      | _ \<Rightarrow> None)"

text \<open>
  How long \<open>withTimeout\<close> waits for a promise: until it settles, and no longer than the
  timeout.
\<close>

definition waits :: "'a promise \<Rightarrow> ms" where
  "waits p =
     (case settles_after p of
        None \<Rightarrow> API_TIMEOUT_MS
      | Some d \<Rightarrow> if d \<le> API_TIMEOUT_MS then d else API_TIMEOUT_MS)"

definition timed_out :: "'a promise \<Rightarrow> bool" where
  "timed_out p = (case settles_after p of None \<Rightarrow> True | Some d \<Rightarrow> API_TIMEOUT_MS < d)"

definition timeout_error :: "string \<Rightarrow> jserror" where
  "timeout_error context = Error (''Timeout after 30000ms: '' @ context)"


subsection \<open>The engine: how the SQL text of a command is read\<close>

text \<open>
  The tools hand SQL text to the engine; what the engine does depends on that text alone.
  This section reads the text the way PostgreSQL does, for the part of the language the
  commands of the source use: a text is cut into words at the spaces, a command into
  statements at the semicolons.
\<close>

fun split_at :: "char \<Rightarrow> string \<Rightarrow> string list" where
  "split_at sep [] = [[]]"
| "split_at sep (c # cs) =
     (if c = sep then [] # split_at sep cs
      else (case split_at sep cs of w # ws \<Rightarrow> (c # w) # ws | [] \<Rightarrow> [[c]]))"

definition sql_words :: "string \<Rightarrow> string list" where
  "sql_words s = filter (\<lambda>w. w \<noteq> []) (split_at CHR '' '' s)"

text \<open>
  A query of the form \<open>SELECT c1, ..., cn FROM relation [WHERE column = operand]\<close>, the
  operand a quoted literal or a positional parameter \<open>$k\<close>. Nothing may follow: a text
  with an \<open>ORDER BY\<close>, a second condition or a second relation is not of this form.
\<close>

datatype operand = Quoted string | Parameter nat

datatype condition = Equals string operand

datatype select_query =
  Select (select_list: "string list") (relation: string) (condition: "condition option")

definition digit_value :: "char \<Rightarrow> nat option" where
  "digit_value c = map_of (zip ''0123456789'' [0, 1, 2, 3, 4, 5, 6, 7, 8, 9]) c"

definition parse_nat :: "string \<Rightarrow> nat option" where
  "parse_nat s =
     (if s = [] then None
      else fold (\<lambda>c acc. case (acc, digit_value c) of
                           (Some n, Some d) \<Rightarrow> Some (10 * n + d)
                         | _ \<Rightarrow> None) s (Some 0))"

definition parse_operand :: "string \<Rightarrow> operand option" where
  "parse_operand w =
     (case w of
        [] \<Rightarrow> None
      | c # cs \<Rightarrow>
          if c = CHR ''$'' then map_option Parameter (parse_nat cs)
          else if c = CHR 0x27 \<and> cs \<noteq> [] \<and> last cs = CHR 0x27 then Some (Quoted (butlast cs))
          else None)"

definition parse_condition :: "string list \<Rightarrow> condition option option" where
  "parse_condition ws =
     (case ws of
        [] \<Rightarrow> Some None
      | [keyword, column, sign, w] \<Rightarrow>
          if keyword = ''WHERE'' \<and> sign = ''='' then
            (case parse_operand w of None \<Rightarrow> None | Some x \<Rightarrow> Some (Some (Equals column x)))
          else None
      | _ \<Rightarrow> None)"

definition strip_comma :: "string \<Rightarrow> string" where
  "strip_comma w = (if w \<noteq> [] \<and> last w = CHR '','' then butlast w else w)"

definition parse_select :: "string \<Rightarrow> select_query option" where
  "parse_select command =
     (case sql_words command of
        [] \<Rightarrow> None
      | keyword # ws \<Rightarrow>
          if keyword \<noteq> ''SELECT'' \<or> takeWhile (\<lambda>w. w \<noteq> ''FROM'') ws = [] then None
          else
            (case dropWhile (\<lambda>w. w \<noteq> ''FROM'') ws of
               _ # name # rest \<Rightarrow>
                 (case parse_condition rest of
                    None \<Rightarrow> None
                  | Some cond \<Rightarrow>
                      Some (Select (map strip_comma (takeWhile (\<lambda>w. w \<noteq> ''FROM'') ws)) name cond))
             | _ \<Rightarrow> None))"

subsection \<open>The engine: the catalogue behind the two schema queries\<close>

text \<open>
  The rows of \<open>information_schema.tables\<close> and \<open>information_schema.columns\<close>, as far as
  the two queries of the source read them, each list in the order in which the engine
  scans it.
\<close>

record tables_row =
  table_schema :: string
  table_name :: string

record columns_row = tables_row +
  column_name :: string
  ordinal_position :: nat
  data_type :: string
  is_nullable :: string
  column_default :: "string option"

record catalog =
  tables :: "tables_row list"
  columns :: "columns_row list"

text \<open>A row of each view with its columns by name; an absent default is SQL \<open>NULL\<close>.\<close>

definition tables_view :: "tables_row \<Rightarrow> row" where
  "tables_view t =
     [(''table_schema'', Str (table_schema t)),
      (''table_name'', Str (table_name t))]"

definition columns_view :: "columns_row \<Rightarrow> row" where
  "columns_view c =
     [(''table_schema'', Str (table_schema c)),
      (''table_name'', Str (table_name c)),
      (''column_name'', Str (column_name c)),
      (''ordinal_position'', Num (int (ordinal_position c))),
      (''data_type'', Str (data_type c)),
      (''is_nullable'', Str (is_nullable c)),
      (''column_default'', case column_default c of None \<Rightarrow> Null | Some d \<Rightarrow> Str d)]"

text \<open>The relations a query may name: the names of their columns, and their rows.\<close>

definition relation_of :: "catalog \<Rightarrow> string \<Rightarrow> (string list \<times> row list) option" where
  "relation_of cat name =
     (if name = ''information_schema.tables'' then
        Some ([''table_schema'', ''table_name''], map tables_view (tables cat))
      else if name = ''information_schema.columns'' then
        Some ([''table_schema'', ''table_name'', ''column_name'', ''ordinal_position'',
               ''data_type'', ''is_nullable'', ''column_default''],
              map columns_view (columns cat))
      else None)"

text \<open>
  The value of an operand, given the values sent with the command; the number of values
  sent must be the number of parameters the text has.
\<close>

definition operand_value :: "string list \<Rightarrow> operand \<Rightarrow> jsval option" where
  "operand_value values x =
     (case x of
        Quoted s \<Rightarrow> if values = [] then Some (Str s) else None
      | Parameter k \<Rightarrow> if k = 1 \<and> length values = 1 then Some (Str (values ! 0)) else None)"

text \<open>
  The rows a query selects: the rows of the relation that satisfy the condition, in scan
  order (the query has no \<open>ORDER BY\<close>), each reduced to the columns of the select list.
  No rows but an error when the relation or a column does not exist or the values do not
  fit the parameters.
\<close>

definition project :: "string list \<Rightarrow> row \<Rightarrow> row" where
  "project cols r = map (\<lambda>c. (c, field r c)) cols"

definition run_select :: "catalog \<Rightarrow> select_query \<Rightarrow> string list \<Rightarrow> row list option" where
  "run_select cat q values =
     (case relation_of cat (relation q) of
        None \<Rightarrow> None
      | Some (names, rows) \<Rightarrow>
          if \<not> list_all (\<lambda>c. c \<in> set names) (select_list q) then None
          else
            (case condition q of
               None \<Rightarrow> if values = [] then Some (map (project (select_list q)) rows) else None
             | Some (Equals column x) \<Rightarrow>
                 (case operand_value values x of
                    None \<Rightarrow> None
                  | Some v \<Rightarrow>
                      if column \<in> set names then
                        Some (map (project (select_list q)) (filter (\<lambda>r. field r column = v) rows))
                      else None)))"

text \<open>
  An engine that answers a command by reading its text, after a latency. A text that is
  not a query of the form above is rejected: no tool that sends one is run against this
  engine.
\<close>

definition information_schema :: "catalog \<Rightarrow> ms \<Rightarrow> engine" where
  "information_schema cat latency n command values =
     (case parse_select command of
        None \<Rightarrow> Rejects latency (Error ''syntax error'')
      | Some q \<Rightarrow>
          (case run_select cat q values of
             None \<Rightarrow> Rejects latency (Error ''undefined relation, column or parameter'')
           | Some rows \<Rightarrow> Fulfills latency rows))"

text \<open>
  The result row of \<open>SELECT column_name, data_type, is_nullable, column_default\<close> for a
  row of the columns catalogue, and that of \<open>SELECT table_name\<close> for a row of the tables
  catalogue.
\<close>

definition describe_row :: "columns_row \<Rightarrow> row" where
  "describe_row c =
     [(''column_name'', Str (column_name c)),
      (''data_type'', Str (data_type c)),
      (''is_nullable'', Str (is_nullable c)),
      (''column_default'', case column_default c of None \<Rightarrow> Null | Some d \<Rightarrow> Str d)]"




definition not_found_text :: "string \<Rightarrow> string" where
  "not_found_text tableName =
     ''Table '' @ [CHR 0x27] @ tableName @ [CHR 0x27] @ '' not found or has no columns.''"

subsection \<open>The engine: transactions\<close>

text \<open>
  What a session of the engine keeps of the commands it receives, as far as the durability
  of changes goes. A command without values travels as one simple-query message, which
  may hold several statements separated by semicolons. A statement that changes data is
  refused in a read-only transaction, which aborts the transaction and skips the rest of
  the message. \<open>COMMIT\<close> makes the changes of the open transaction durable and ends it,
  whatever kind it was; \<open>ROLLBACK\<close> discards them. Statements outside an explicit
  transaction form an implicit one that is committed at the end of the message.
  (PostgreSQL documentation: SET TRANSACTION; Frontend/Backend Protocol, Multiple
  Statements in a Simple Query.) Key words are recognised in upper case.
\<close>

datatype transaction = Idle | Implicit | Read_write | Read_only | Aborted

record session =
  transaction :: transaction
  durable :: "string list"
  pending :: "string list"

datatype stmt = Begin bool | Commit | Rollback | Change string | Other

definition new_session :: session where
  "new_session = \<lparr>transaction = Idle, durable = [], pending = []\<rparr>"

definition trim :: "string \<Rightarrow> string" where
  "trim s = rev (dropWhile (\<lambda>c. c = CHR '' '') (rev (dropWhile (\<lambda>c. c = CHR '' '') s)))"

definition statements :: "string \<Rightarrow> string list" where
  "statements command = filter (\<lambda>s. s \<noteq> []) (map trim (split_at CHR '';'' command))"

definition classify :: "string \<Rightarrow> stmt" where
  "classify s =
     (case sql_words s of
        [] \<Rightarrow> Other
      | keyword # ws \<Rightarrow>
          if keyword = ''BEGIN'' \<or> keyword = ''START'' then
            Begin (ws = [''TRANSACTION'', ''READ'', ''ONLY''] \<or> ws = [''READ'', ''ONLY''])
          else if keyword = ''COMMIT'' \<or> keyword = ''END'' then Commit
          else if keyword = ''ROLLBACK'' \<or> keyword = ''ABORT'' then Rollback
          else if keyword = ''INSERT'' \<or> keyword = ''UPDATE'' \<or> keyword = ''DELETE'' then Change s
          else Other)"

text \<open>One statement: the session after it, and whether the statement succeeded.\<close>

definition execute :: "stmt \<Rightarrow> session \<Rightarrow> session \<times> bool" where
  "execute st s =
     (if transaction s = Aborted then
        (case st of
           Commit \<Rightarrow> (s\<lparr>transaction := Idle, pending := []\<rparr>, True)
         | Rollback \<Rightarrow> (s\<lparr>transaction := Idle, pending := []\<rparr>, True)
         | _ \<Rightarrow> (s, False))
      else
        (case st of
           Begin read_only \<Rightarrow>
             (if transaction s = Read_write \<or> transaction s = Read_only then (s, True)
              else (s\<lparr>transaction := (if read_only then Read_only else Read_write)\<rparr>, True))
         | Commit \<Rightarrow> (s\<lparr>transaction := Idle, durable := durable s @ pending s, pending := []\<rparr>, True)
         | Rollback \<Rightarrow> (s\<lparr>transaction := Idle, pending := []\<rparr>, True)
         | Change c \<Rightarrow>
             (if transaction s = Read_only then (s\<lparr>transaction := Aborted, pending := []\<rparr>, False)
              else (s\<lparr>transaction := (if transaction s = Idle then Implicit else transaction s),
                      pending := pending s @ [c]\<rparr>, True))
         | Other \<Rightarrow> (s, True)))"

fun execute_all :: "stmt list \<Rightarrow> session \<Rightarrow> session \<times> bool" where
  "execute_all [] s = (s, True)"
| "execute_all (st # sts) s =
     (case execute st s of
        (s', True) \<Rightarrow> execute_all sts s'
      | (s', False) \<Rightarrow> (s', False))"

text \<open>One command, as a simple-query message.\<close>

definition receive :: "session \<Rightarrow> string \<Rightarrow> session" where
  "receive s command =
     (case execute_all (map classify (statements command)) s of
        (s', ok) \<Rightarrow>
          if transaction s' = Implicit then
            s'\<lparr>transaction := Idle,
                durable := (if ok then durable s' @ pending s' else durable s'),
                pending := []\<rparr>
          else s')"

text \<open>
  The data of the database after a call of a tool: what the session has made durable of
  the commands the call sent on the leased connection, in the order in which it sent them.
\<close>

definition durable_after :: "trace \<Rightarrow> string list" where
  "durable_after tr = durable (foldl receive new_session (map snd (commands tr)))"

text \<open>A statement that begins or ends a transaction.\<close>

fun controls_transaction :: "stmt \<Rightarrow> bool" where
  "controls_transaction (Begin read_only) = True"
| "controls_transaction Commit = True"
| "controls_transaction Rollback = True"
| "controls_transaction (Change c) = False"
| "controls_transaction Other = False"

subsection \<open>Example catalogues\<close>

text \<open>
  The table \<open>departments\<close> of the sample schema (init/01-schema.sql), as the columns
  catalogue lists it for a schema.
\<close>

definition departments_columns :: "string \<Rightarrow> columns_row list" where
  "departments_columns schema =
     [\<lparr>table_schema = schema, table_name = ''departments'', column_name = ''department_id'',
       ordinal_position = 1, data_type = ''integer'', is_nullable = ''NO'',
       column_default = Some ''nextval('departments_department_id_seq'::regclass)''\<rparr>,
      \<lparr>table_schema = schema, table_name = ''departments'', column_name = ''department_name'',
       ordinal_position = 2, data_type = ''character varying'', is_nullable = ''NO'',
       column_default = None\<rparr>,
      \<lparr>table_schema = schema, table_name = ''departments'', column_name = ''location'',
       ordinal_position = 3, data_type = ''character varying'', is_nullable = ''YES'',
       column_default = None\<rparr>]"


text \<open>The sample table, and a table of the same name in a second schema.\<close>

definition catalog_two_schemas :: catalog where
  "catalog_two_schemas =
     \<lparr>tables = [\<lparr>table_schema = ''public'', table_name = ''departments''\<rparr>,
                \<lparr>table_schema = ''archive'', table_name = ''departments''\<rparr>],
      columns = departments_columns ''public'' @
                [\<lparr>table_schema = ''archive'', table_name = ''departments'', column_name = ''closed_on'',
                  ordinal_position = 1, data_type = ''date'', is_nullable = ''YES'',
                  column_default = None\<rparr>]\<rparr>"


subsection \<open>Example statements\<close>

text \<open>A statement that adds a row to the sample table \<open>departments\<close>.\<close>

definition insert_department :: string where
  "insert_department = ''INSERT INTO departments (department_name) VALUES ('x')''"

subsection \<open>The running process: connection state, shutdown, reconnection, heartbeat\<close>

text \<open>
  The handlers the module registers (on the transport, on the process, the interval of the
  heartbeat check, the timers of the reconnection) share the one record \<open>connectionState\<close>.
  A handler runs without interruption up to its next \<open>await\<close>; there another handler may
  run. So the process is a state, and what happens to it is a sequence of stimuli:
  an event that starts a handler, or a promise settling that lets a suspended handler go
  on. The state counts the handlers suspended at each \<open>await\<close> of the source; when and how
  the awaited calls settle, and when a due timer actually fires, is up to the sequence.
  The state \<open>started\<close> is the one the module sets up when it is loaded: nothing is
  pending and nothing has been done. The runs of the handlers from it are the runs of a
  process whose start-up has completed undisturbed; start-up itself, and what the handlers
  do during it, is added further below.
  \<open>transport.onerror\<close> and \<open>transport.onmessage\<close> are the functions the module assigns.
\<close>

record connectionState =
  isConnected :: bool
  reconnectAttempts :: nat
  lastHeartbeat :: int
  isShuttingDown :: bool

record process =
  connectionState :: connectionState
  now :: int
  timers :: "int list"
  attaching :: nat
  ending_pool :: nat
  closing_transport :: nat
  exited :: "nat option"
  effects :: "(int \<times> event) list"

text \<open>
  \<open>now\<close> is \<open>Date.now()\<close>. \<open>timers\<close> holds, in the order of their creation, the times at
  which the pending \<open>setTimeout\<close> callbacks are due. \<open>attaching\<close>, \<open>ending_pool\<close> and
  \<open>closing_transport\<close> count the handlers suspended at \<open>await server.connect(transport)\<close>,
  \<open>await pool.end()\<close> and \<open>await transport.close()\<close>. \<open>exited\<close> is the exit code once
  \<open>process.exit\<close> has been called. \<open>effects\<close> lists the effects with their times.
\<close>

datatype settlement = Resolved | Rejected jserror

datatype signal = SIGINT | SIGTERM

datatype stimulus =
    Elapse nat
  | Signal signal
  | UncaughtException jserror
  | UnhandledRejection jserror
  | Transport_error jserror
  | Transport_message "string option"
  | Heartbeat_interval
  | Timer_fires
  | Server_connect_settled settlement
  | Pool_end_settled settlement
  | Transport_close_settled settlement

definition started :: "int \<Rightarrow> process" where
  "started t0 =
     \<lparr>connectionState =
        \<lparr>isConnected = False, reconnectAttempts = 0, lastHeartbeat = t0, isShuttingDown = False\<rparr>,
      now = t0, timers = [], attaching = 0, ending_pool = 0, closing_transport = 0,
      exited = None, effects = []\<rparr>"

definition does :: "event list \<Rightarrow> process \<Rightarrow> process" where
  "does evs s = s\<lparr>effects := effects s @ map (Pair (now s)) evs\<rparr>"

text \<open>
  \<open>shutdown\<close>, cut at its two \<open>await\<close>s: the part up to \<open>await pool.end()\<close>, the part
  from there to \<open>await transport.close()\<close>, and the rest.
\<close>

definition shutdown :: "bool \<Rightarrow> process \<Rightarrow> process" where
  "shutdown DEBUG s =
     (if isShuttingDown (connectionState s) then s
      else
        (does (debugLog DEBUG ''Shutting down gracefully...'' @ [Pool_end])
           (s\<lparr>connectionState := (connectionState s)\<lparr>isShuttingDown := True\<rparr>\<rparr>))
        \<lparr>ending_pool := Suc (ending_pool s)\<rparr>)"

definition shutdown_after_pool_end :: "bool \<Rightarrow> settlement \<Rightarrow> process \<Rightarrow> process" where
  "shutdown_after_pool_end DEBUG r s =
     (does ((case r of
               Resolved \<Rightarrow> debugLog DEBUG ''Database pool closed successfully''
             | Rejected error \<Rightarrow> handleError error ''Database pool closure failed'')
            @ [Transport_close]) s)
     \<lparr>closing_transport := Suc (closing_transport s)\<rparr>"

definition shutdown_after_transport_close :: "bool \<Rightarrow> settlement \<Rightarrow> process \<Rightarrow> process" where
  "shutdown_after_transport_close DEBUG r s =
     (does ((case r of
               Resolved \<Rightarrow> debugLog DEBUG ''Transport closed successfully''
             | Rejected error \<Rightarrow> handleError error ''Transport closure failed'')
            @ [Process_exit 0]) s)
     \<lparr>exited := Some 0\<rparr>"

text \<open>\<open>transport.onerror\<close>, and the callback it hands to \<open>setTimeout\<close>, cut at its \<open>await\<close>.\<close>

definition transport_onerror :: "bool \<Rightarrow> jserror \<Rightarrow> process \<Rightarrow> process" where
  "transport_onerror DEBUG error s =
     (let s1 = does (handleError error ''Transport error'') s in
      if reconnectAttempts (connectionState s1) < MAX_RECONNECT_ATTEMPTS then
        (let s2 = s1\<lparr>connectionState := (connectionState s1)
                       \<lparr>reconnectAttempts := reconnectAttempts (connectionState s1) + 1\<rparr>\<rparr> in
         (does (debugLog DEBUG (''Attempting reconnection ('' @ dec (reconnectAttempts (connectionState s2))
                                @ ''/'' @ dec MAX_RECONNECT_ATTEMPTS @ '')...'')
                @ [Set_timeout RECONNECT_DELAY_MS]) s2)
         \<lparr>timers := timers s2 @ [now s2 + RECONNECT_DELAY_MS]\<rparr>)
      else
        shutdown DEBUG (does (debugLog DEBUG ''Max reconnection attempts reached, shutting down'') s1))"

definition reconnect :: "process \<Rightarrow> process" where
  "reconnect s = (does [Server_connect] s)\<lparr>attaching := Suc (attaching s)\<rparr>"

definition reconnect_after_connect :: "bool \<Rightarrow> settlement \<Rightarrow> process \<Rightarrow> process" where
  "reconnect_after_connect DEBUG r s =
     (case r of
        Resolved \<Rightarrow>
          does (debugLog DEBUG ''Reconnection successful'')
            (s\<lparr>connectionState := (connectionState s)\<lparr>isConnected := True, reconnectAttempts := 0\<rparr>\<rparr>)
      | Rejected reconnectError \<Rightarrow>
          (let s1 = does (handleError reconnectError ''Reconnection failed'') s in
           if reconnectAttempts (connectionState s1) \<ge> MAX_RECONNECT_ATTEMPTS then
             shutdown DEBUG (does (debugLog DEBUG ''Max reconnection attempts reached, shutting down'') s1)
           else s1))"

text \<open>\<open>transport.onmessage\<close>; the argument is \<open>message?.method\<close>.\<close>

definition transport_onmessage :: "bool \<Rightarrow> string option \<Rightarrow> process \<Rightarrow> process" where
  "transport_onmessage DEBUG method s =
     (let s1 = does (debugLog DEBUG (''Received message: ''
                       @ (case method of None \<Rightarrow> ''undefined'' | Some m \<Rightarrow> m))) s in
      if method = Some ''initialize'' then
        does (debugLog DEBUG ''Handling initialize request'')
          (s1\<lparr>connectionState := (connectionState s1)\<lparr>isConnected := True, lastHeartbeat := now s1\<rparr>\<rparr>)
      else if method = Some ''initialized'' then
        does (debugLog DEBUG ''Connection fully initialized'')
          (s1\<lparr>connectionState := (connectionState s1)\<lparr>isConnected := True\<rparr>\<rparr>)
      else if method = Some ''server/heartbeat'' then
        does (debugLog DEBUG ''Heartbeat received'')
          (s1\<lparr>connectionState := (connectionState s1)\<lparr>lastHeartbeat := now s1\<rparr>\<rparr>)
      else s1)"

text \<open>The callback of the heartbeat interval.\<close>

definition heartbeatCheck :: "bool \<Rightarrow> process \<Rightarrow> process" where
  "heartbeatCheck DEBUG s =
     (if \<not> isConnected (connectionState s) then s
      else
        (let timeSinceLastHeartbeat = now s - lastHeartbeat (connectionState s) in
         if timeSinceLastHeartbeat > HEARTBEAT_INTERVAL_MS * 2 then
           transport_onerror DEBUG (Error ''Heartbeat timeout'')
             (does (debugLog DEBUG ''No heartbeat received, attempting reconnection'') s)
         else s))"

text \<open>
  One stimulus. After \<open>process.exit\<close> nothing runs. A timer fires only when it is due, the
  oldest first; a settlement finds a handler waiting for it or has no effect.
\<close>

definition step :: "bool \<Rightarrow> process \<Rightarrow> stimulus \<Rightarrow> process" where
  "step DEBUG s x =
     (if exited s \<noteq> None then s
      else
        (case x of
           Elapse d \<Rightarrow> s\<lparr>now := now s + int d\<rparr>
         | Signal sig \<Rightarrow> shutdown DEBUG s
         | UncaughtException error \<Rightarrow> shutdown DEBUG (does (handleError error ''Uncaught Exception'') s)
         | UnhandledRejection reason \<Rightarrow> shutdown DEBUG (does [Log_rejection reason] s)
         | Transport_error error \<Rightarrow> transport_onerror DEBUG error s
         | Transport_message method \<Rightarrow> transport_onmessage DEBUG method s
         | Heartbeat_interval \<Rightarrow> heartbeatCheck DEBUG s
         | Timer_fires \<Rightarrow>
             (case timers s of
                [] \<Rightarrow> s
              | due # later \<Rightarrow> if due \<le> now s then reconnect (s\<lparr>timers := later\<rparr>) else s)
         | Server_connect_settled r \<Rightarrow>
             (if attaching s = 0 then s
              else reconnect_after_connect DEBUG r (s\<lparr>attaching := attaching s - 1\<rparr>))
         | Pool_end_settled r \<Rightarrow>
             (if ending_pool s = 0 then s
              else shutdown_after_pool_end DEBUG r (s\<lparr>ending_pool := ending_pool s - 1\<rparr>))
         | Transport_close_settled r \<Rightarrow>
             (if closing_transport s = 0 then s
              else shutdown_after_transport_close DEBUG r
                     (s\<lparr>closing_transport := closing_transport s - 1\<rparr>))))"

definition run :: "bool \<Rightarrow> process \<Rightarrow> stimulus list \<Rightarrow> process" where
  "run DEBUG s xs = foldl (step DEBUG) s xs"

text \<open>Observations on the effects of the process.\<close>

definition performed :: "event \<Rightarrow> process \<Rightarrow> nat" where
  "performed e s = count_list (map snd (effects s)) e"

definition exits :: "process \<Rightarrow> nat list" where
  "exits s = exit_codes (map snd (effects s))"

definition timers_set :: "process \<Rightarrow> nat" where
  "timers_set s = length (filter (\<lambda>e. case e of Set_timeout _ \<Rightarrow> True | _ \<Rightarrow> False) (map snd (effects s)))"

text \<open>
  A stimulus that makes the source call \<open>shutdown\<close> in a state: a termination signal, an
  uncaught exception, an unhandled rejection, a transport error or a heartbeat timeout
  when no reconnection attempt is left, and the failure of a reattachment when none is
  left.
\<close>

definition heartbeat_timed_out :: "process \<Rightarrow> bool" where
  "heartbeat_timed_out s =
     (isConnected (connectionState s)
      \<and> now s - lastHeartbeat (connectionState s) > HEARTBEAT_INTERVAL_MS * 2)"

definition calls_shutdown :: "process \<Rightarrow> stimulus \<Rightarrow> bool" where
  "calls_shutdown s x =
     (exited s = None \<and>
      (case x of
         Signal sig \<Rightarrow> True
       | UncaughtException error \<Rightarrow> True
       | UnhandledRejection reason \<Rightarrow> True
       | Transport_error error \<Rightarrow> reconnectAttempts (connectionState s) \<ge> MAX_RECONNECT_ATTEMPTS
       | Heartbeat_interval \<Rightarrow>
           heartbeat_timed_out s \<and> reconnectAttempts (connectionState s) \<ge> MAX_RECONNECT_ATTEMPTS
       | Server_connect_settled r \<Rightarrow>
           attaching s > 0 \<and> r \<noteq> Resolved
           \<and> reconnectAttempts (connectionState s) \<ge> MAX_RECONNECT_ATTEMPTS
       | _ \<Rightarrow> False))"

text \<open>
  How far the shutdown has got: not called; suspended at \<open>await pool.end()\<close>; suspended
  at \<open>await transport.close()\<close>; exited. A state of the process is consistent when it is
  at one of these stages, every timer that was set is either pending or has led to one
  call of \<open>server.connect\<close>, and the counter of attempts is within its maximum.
\<close>

definition shutdown_not_called :: "process \<Rightarrow> bool" where
  "shutdown_not_called s =
     (\<not> isShuttingDown (connectionState s) \<and> ending_pool s = 0 \<and> closing_transport s = 0
      \<and> exited s = None \<and> performed Pool_end s = 0 \<and> performed Transport_close s = 0
      \<and> exits s = [])"

definition awaiting_pool_end :: "process \<Rightarrow> bool" where
  "awaiting_pool_end s =
     (isShuttingDown (connectionState s) \<and> ending_pool s = 1 \<and> closing_transport s = 0
      \<and> exited s = None \<and> performed Pool_end s = 1 \<and> performed Transport_close s = 0
      \<and> exits s = [])"

definition awaiting_transport_close :: "process \<Rightarrow> bool" where
  "awaiting_transport_close s =
     (isShuttingDown (connectionState s) \<and> ending_pool s = 0 \<and> closing_transport s = 1
      \<and> exited s = None \<and> performed Pool_end s = 1 \<and> performed Transport_close s = 1
      \<and> exits s = [])"

definition has_exited :: "process \<Rightarrow> bool" where
  "has_exited s =
     (isShuttingDown (connectionState s) \<and> ending_pool s = 0 \<and> closing_transport s = 0
      \<and> exited s = Some 0 \<and> performed Pool_end s = 1 \<and> performed Transport_close s = 1
      \<and> exits s = [0])"

definition consistent :: "process \<Rightarrow> bool" where
  "consistent s =
     ((shutdown_not_called s \<or> awaiting_pool_end s \<or> awaiting_transport_close s \<or> has_exited s)
      \<and> timers_set s = length (timers s) + performed Server_connect s
      \<and> attaching s \<le> performed Server_connect s
      \<and> reconnectAttempts (connectionState s) \<le> MAX_RECONNECT_ATTEMPTS)"

text \<open>
  A stimulus that makes the source schedule a reattachment in a state: a transport error
  or a heartbeat timeout while the counter of attempts is below its maximum.
\<close>

definition schedules_reconnection :: "process \<Rightarrow> stimulus \<Rightarrow> bool" where
  "schedules_reconnection s x =
     (exited s = None \<and> reconnectAttempts (connectionState s) < MAX_RECONNECT_ATTEMPTS \<and>
      (case x of
         Transport_error error \<Rightarrow> True
       | Heartbeat_interval \<Rightarrow> heartbeat_timed_out s
       | _ \<Rightarrow> False))"

subsection \<open>The process from its start: start-up and the handlers together\<close>

text \<open>
  The handlers are registered while the module is loaded, \<open>startServer\<close> is called last,
  and it is suspended twice: at \<open>await pool.connect()\<close> and at
  \<open>await server.connect(transport)\<close>. While it is suspended the handlers run as they do
  later, on the same state. So the process from its start is the state of the handlers
  together with how far \<open>startServer\<close> has got, and a stimulus is one of the handlers'
  or the settlement of one of the two calls \<open>startServer\<close> waits for. \<open>startServer\<close> is
  cut at its two \<open>await\<close>s, as \<open>shutdown\<close> is. What loading the module itself does is
  \<open>module_init\<close> above and is not repeated in the effects here; the listeners that
  \<open>startServer\<close> puts on \<open>stdin\<close> and \<open>stdout\<close> at its end only log and are left out.
\<close>

datatype phase = Verifying | Attaching | Running

record lifetime =
  phase :: phase
  proc :: process

datatype lifetime_stimulus =
    Verification_settled settlement
  | Attachment_settled settlement
  | Handler stimulus

text \<open>
  The module has been loaded and \<open>startServer\<close> has run up to \<open>await pool.connect()\<close>.
\<close>

definition loaded :: "bool \<Rightarrow> int \<Rightarrow> lifetime" where
  "loaded DEBUG t0 =
     \<lparr>phase = Verifying,
      proc = does (debugLog DEBUG ''Verifying database connection...'' @ [Pool_connect]) (started t0)\<rparr>"

definition startServer_after_pool_connect :: "bool \<Rightarrow> settlement \<Rightarrow> lifetime \<Rightarrow> lifetime" where
  "startServer_after_pool_connect DEBUG r l =
     (case r of
        Resolved \<Rightarrow>
          l\<lparr>phase := Attaching,
            proc := does (Client_release # debugLog DEBUG ''Database connection verified''
                          @ debugLog DEBUG ''Connecting to MCP transport...'' @ [Server_connect])
                      (proc l)\<rparr>
      | Rejected error \<Rightarrow>
          l\<lparr>proc := (does (handleError error ''Failed to verify database connection''
                            @ [Process_exit 1]) (proc l))
                     \<lparr>exited := Some 1\<rparr>\<rparr>)"

definition startServer_after_server_connect :: "bool \<Rightarrow> settlement \<Rightarrow> lifetime \<Rightarrow> lifetime" where
  "startServer_after_server_connect DEBUG r l =
     (case r of
        Resolved \<Rightarrow>
          l\<lparr>phase := Running,
            proc := does (debugLog DEBUG ''MCP server connected and ready''
                          @ debugLog DEBUG ''Server startup complete'')
                      (proc l)\<rparr>
      | Rejected error \<Rightarrow>
          l\<lparr>proc := (does (handleError error ''Failed to connect MCP server''
                            @ [Process_exit 1]) (proc l))
                     \<lparr>exited := Some 1\<rparr>\<rparr>)"

text \<open>
  One stimulus. After \<open>process.exit\<close> nothing runs; a settlement that \<open>startServer\<close> is
  not waiting for has no effect.
\<close>

definition lifetime_step :: "bool \<Rightarrow> lifetime \<Rightarrow> lifetime_stimulus \<Rightarrow> lifetime" where
  "lifetime_step DEBUG l x =
     (if exited (proc l) \<noteq> None then l
      else
        (case x of
           Verification_settled r \<Rightarrow>
             if phase l = Verifying then startServer_after_pool_connect DEBUG r l else l
         | Attachment_settled r \<Rightarrow>
             if phase l = Attaching then startServer_after_server_connect DEBUG r l else l
         | Handler y \<Rightarrow> l\<lparr>proc := step DEBUG (proc l) y\<rparr>))"

definition lifetime_run :: "bool \<Rightarrow> lifetime \<Rightarrow> lifetime_stimulus list \<Rightarrow> lifetime" where
  "lifetime_run DEBUG l xs = foldl (lifetime_step DEBUG) l xs"

text \<open>A stimulus that tells \<open>startServer\<close> that one of its two calls has failed.\<close>

fun startup_fails :: "lifetime_stimulus \<Rightarrow> bool" where
  "startup_fails (Verification_settled r) = (r \<noteq> Resolved)"
| "startup_fails (Attachment_settled r) = (r \<noteq> Resolved)"
| "startup_fails (Handler y) = False"

text \<open>
  The stages of the shutdown alone, and the states of the process from its start: at one
  of these stages, or exited with code 1 by \<open>startServer\<close> before it had completed.
\<close>

definition staged :: "process \<Rightarrow> bool" where
  "staged s =
     (shutdown_not_called s \<or> awaiting_pool_end s \<or> awaiting_transport_close s \<or> has_exited s)"

definition startup_failed :: "lifetime \<Rightarrow> bool" where
  "startup_failed l =
     (phase l \<noteq> Running \<and> exited (proc l) = Some 1 \<and> exits (proc l) = [1]
      \<and> performed Pool_end (proc l) \<le> 1 \<and> performed Transport_close (proc l) \<le> 1)"

definition orderly :: "lifetime \<Rightarrow> bool" where
  "orderly l = (staged (proc l) \<or> startup_failed l)"

text \<open>The promise that settles in a given way after a given time.\<close>

definition settling :: "settlement \<Rightarrow> ms \<Rightarrow> unit promise" where
  "settling r d = (case r of Resolved \<Rightarrow> Fulfills d () | Rejected error \<Rightarrow> Rejects d error)"

section \<open>Properties\<close>

subsection \<open>Auxiliary facts\<close>

lemma str_includes_append: "str_includes (needle @ rest) needle"
proof (cases "needle @ rest")
  case Nil
  then show ?thesis by simp
next
  case (Cons c cs)
  have "prefix needle (needle @ rest)" by simp
  with Cons show ?thesis by simp
qed

lemma timeout_message_includes [simp]:
  "str_includes (''Timeout after '' @ rest) ''Timeout after''"
  using str_includes_append [of "''Timeout after''" "'' '' @ rest"] by simp

lemma dec_API_TIMEOUT_MS [simp]: "dec API_TIMEOUT_MS = ''30000''"
  by (simp add: API_TIMEOUT_MS_def dec.simps digit_def)

lemmas async_defs = returns_def throws_def emit_def await_def bind_def try_catch_def
  try_finally_def client_query_def executeDbQuery_def withTimeout_def race_def
  settles_after_def createTimeout_def rollback_unawaited_def handleError_def process_exit_def

lemma releases_simps [simp]:
  "releases [] = []"
  "releases ((t, e) # tr) = (if e = Client_release then t # releases tr else releases tr)"
  "releases (tr @ tr') = releases tr @ releases tr'"
  by (simp_all add: releases_def)

lemma commands_simps [simp]:
  "commands [] = []"
  "commands ((t, e) # tr) = (case e of Client_query c _ \<Rightarrow> (t, c) # commands tr | _ \<Rightarrow> commands tr)"
  "commands (tr @ tr') = commands tr @ commands tr'"
  by (simp_all add: commands_def split: event.splits)

lemma on_client_simps [simp]:
  "on_client [] = []"
  "on_client ((t, e) # tr) =
     (case e of Client_query _ _ \<Rightarrow> e # on_client tr | Client_release \<Rightarrow> e # on_client tr
      | _ \<Rightarrow> on_client tr)"
  "on_client (tr @ tr') = on_client tr @ on_client tr'"
  by (simp_all add: on_client_def split: event.splits)

lemma debugLog_unobserved [simp]:
  "releases (map (Pair t) (debugLog DEBUG msg)) = []"
  "commands (map (Pair t) (debugLog DEBUG msg)) = []"
  "on_client (map (Pair t) (debugLog DEBUG msg)) = []"
  by (simp_all add: debugLog_def)


text \<open>How the engine reads the two texts, and what it answers from a catalogue.\<close>

lemma parse_describe_table_sql:
  "parse_select DESCRIBE_TABLE_SQL =
     Some (Select [''column_name'', ''data_type'', ''is_nullable'', ''column_default'']
             ''information_schema.columns'' (Some (Equals ''table_name'' (Parameter 1))))"
  by (simp add: parse_select_def DESCRIBE_TABLE_SQL_def sql_words_def parse_condition_def
        parse_operand_def parse_nat_def digit_value_def strip_comma_def)


lemma describe_query_on_catalogue:
  "information_schema cat d n DESCRIBE_TABLE_SQL [tableName] =
     Fulfills d (map describe_row (filter (\<lambda>c. table_name c = tableName) (columns cat)))"
  by (simp add: information_schema_def parse_describe_table_sql run_select_def relation_of_def
        operand_value_def project_def filter_map comp_def field_def columns_view_def
        describe_row_def)


text \<open>What \<open>withTimeout\<close> does with a promise, case by case.\<close>

lemma withTimeout_in_time:
  assumes "settles_after p = Some d" and "d \<le> timeoutMs"
  shows "snd (withTimeout DEBUG p timeoutMs context t) =
           (case p of Fulfills _ v \<Rightarrow> Returned (t + d) v | Rejects _ e \<Rightarrow> Thrown (t + d) e | Pending \<Rightarrow> Never)"
  using assms unfolding async_defs by (cases p) simp_all

lemma withTimeout_late:
  assumes "settles_after p = None \<or> (\<exists>d. settles_after p = Some d \<and> timeoutMs < d)"
  shows "withTimeout DEBUG p timeoutMs context t =
           (map (Pair (t + timeoutMs)) (debugLog DEBUG (''Operation timed out: '' @ context)),
            Thrown (t + timeoutMs) (Error (''Timeout after '' @ dec timeoutMs @ ''ms: '' @ context)))"
  using assms unfolding async_defs by (cases p) auto

subsection \<open>The query tool: read-only transaction and rollback\<close>

text \<open>
  The command discipline of the query tool. Whatever SQL string the tool is given, the
  commands it sends on the leased connection are \<open>BEGIN TRANSACTION READ ONLY\<close>, then (only
  once that has been answered) the string as it is, with no values, then \<open>ROLLBACK\<close>;
  \<open>ROLLBACK\<close> is sent at the moment the wait for the statement ends, whichever way it
  ends: with rows, with an error, or with the timeout, and before the connection goes back
  to the pool. The tool sends nothing else, and it does not look into the string.
\<close>

theorem query_runs_in_read_only_transaction_rolled_back:
  "commands (fst (postgres_query DEBUG pool db sql t0)) =
     (case pool of
        Fulfills dc client \<Rightarrow>
          (case db 0 BEGIN_READ_ONLY [] of
             Fulfills d0 r0 \<Rightarrow>
               [(t0 + dc, BEGIN_READ_ONLY),
                (t0 + dc + d0, sql),
                (t0 + dc + d0 + waits (db 1 sql []), ROLLBACK)]
           | _ \<Rightarrow> [(t0 + dc, BEGIN_READ_ONLY)])
      | _ \<Rightarrow> [])
   \<and> (\<forall>dc client d0 r0.
        pool = Fulfills dc client \<and> db 0 BEGIN_READ_ONLY [] = Fulfills d0 r0 \<longrightarrow>
        on_client (fst (postgres_query DEBUG pool db sql t0)) =
          [Client_query BEGIN_READ_ONLY [], Client_query sql [], Client_query ROLLBACK [],
           Client_release]
        \<and> snd (postgres_query DEBUG pool db sql t0) =
          (if timed_out (db 1 sql []) then
             Thrown (t0 + dc + d0 + API_TIMEOUT_MS) (timeout_error ''Executing SQL query'')
           else
             (case db 1 sql [] of
                Fulfills d rows \<Rightarrow>
                  Returned (t0 + dc + d0 + d) [Text_block (JSON_stringify (Arr (map Obj rows)))]
              | Rejects d e \<Rightarrow> Thrown (t0 + dc + d0 + d) e
              | Pending \<Rightarrow> Never)))"
proof (intro conjI allI impI)
  show "commands (fst (postgres_query DEBUG pool db sql t0)) =
     (case pool of
        Fulfills dc client \<Rightarrow>
          (case db 0 BEGIN_READ_ONLY [] of
             Fulfills d0 r0 \<Rightarrow>
               [(t0 + dc, BEGIN_READ_ONLY),
                (t0 + dc + d0, sql),
                (t0 + dc + d0 + waits (db 1 sql []), ROLLBACK)]
           | _ \<Rightarrow> [(t0 + dc, BEGIN_READ_ONLY)])
      | _ \<Rightarrow> [])"
    unfolding postgres_query_def async_defs waits_def
    by (cases pool; cases "db 0 BEGIN_READ_ONLY []"; cases "db 1 sql []"; cases "db 2 ROLLBACK []")
       simp_all
next
  fix dc client d0 r0
  assume began: "pool = Fulfills dc client \<and> db 0 BEGIN_READ_ONLY [] = Fulfills d0 r0"
  then show "on_client (fst (postgres_query DEBUG pool db sql t0)) =
          [Client_query BEGIN_READ_ONLY [], Client_query sql [], Client_query ROLLBACK [],
           Client_release]"
    unfolding postgres_query_def async_defs
    by (cases "db 1 sql []"; cases "db 2 ROLLBACK []") auto
  from began show "snd (postgres_query DEBUG pool db sql t0) =
          (if timed_out (db 1 sql []) then
             Thrown (t0 + dc + d0 + API_TIMEOUT_MS) (timeout_error ''Executing SQL query'')
           else
             (case db 1 sql [] of
                Fulfills d rows \<Rightarrow>
                  Returned (t0 + dc + d0 + d) [Text_block (JSON_stringify (Arr (map Obj rows)))]
              | Rejects d e \<Rightarrow> Thrown (t0 + dc + d0 + d) e
              | Pending \<Rightarrow> Never))"
    unfolding postgres_query_def async_defs timed_out_def timeout_error_def
    by (cases "db 1 sql []"; cases "db 2 ROLLBACK []") auto
qed

theorem query_runs_in_read_only_transaction_rolled_back_witness:
  "commands (fst (postgres_query False (Fulfills 5 ())
       (\<lambda>n command values. if n = 1 then Pending else Fulfills 3 [])
       ''INSERT INTO departments VALUES (9)'' 0)) =
     [(5, ''BEGIN TRANSACTION READ ONLY''),
      (8, ''INSERT INTO departments VALUES (9)''),
      (30008, ''ROLLBACK'')]
   \<and> on_client (fst (postgres_query False (Fulfills 5 ())
       (\<lambda>n command values. if n = 1 then Pending else Fulfills 3 [])
       ''INSERT INTO departments VALUES (9)'' 0)) =
     [Client_query ''BEGIN TRANSACTION READ ONLY'' [],
      Client_query ''INSERT INTO departments VALUES (9)'' [],
      Client_query ''ROLLBACK'' [],
      Client_release]
   \<and> snd (postgres_query False (Fulfills 5 ())
       (\<lambda>n command values. if n = 1 then Pending else Fulfills 3 [])
       ''INSERT INTO departments VALUES (9)'' 0) =
     Thrown 30008 (Error ''Timeout after 30000ms: Executing SQL query'')"
  using query_runs_in_read_only_transaction_rolled_back
    [of False "Fulfills 5 ()" "\<lambda>n command values. if n = 1 then Pending else Fulfills 3 []"
        "''INSERT INTO departments VALUES (9)''" 0]
  by (simp add: waits_def timed_out_def settles_after_def timeout_error_def API_TIMEOUT_MS_def
        BEGIN_READ_ONLY_def ROLLBACK_def)

subsection \<open>The query tool: what the transaction does not hold back\<close>

lemma read_only_holds:
  assumes "list_all (\<lambda>st. \<not> controls_transaction st) sts"
    and "transaction s = Read_only" and "pending s = []"
  shows "(transaction (fst (execute_all sts s)) = Read_only
          \<or> transaction (fst (execute_all sts s)) = Aborted)
         \<and> durable (fst (execute_all sts s)) = durable s"
  using assms
proof (induction sts arbitrary: s)
  case Nil
  then show ?case by simp
next
  case (Cons st sts)
  then show ?case
    by (cases st) (simp_all add: execute_def)
qed

lemma began_read_only:
  "receive new_session BEGIN_READ_ONLY = \<lparr>transaction = Read_only, durable = [], pending = []\<rparr>"
  by (simp add: receive_def statements_def trim_def classify_def sql_words_def execute_def
        new_session_def BEGIN_READ_ONLY_def)

lemma rolled_back:
  "transaction s \<noteq> Implicit \<Longrightarrow> durable (receive s ROLLBACK) = durable s"
  by (simp add: receive_def statements_def trim_def classify_def sql_words_def execute_def
        ROLLBACK_def)

lemma durable_after_query:
  assumes "pool = Fulfills dc client" and "db 0 BEGIN_READ_ONLY [] = Fulfills d0 r0"
  shows "durable_after (fst (postgres_query DEBUG pool db sql t0)) =
           durable (receive (receive (receive new_session BEGIN_READ_ONLY) sql) ROLLBACK)"
proof -
  from assms query_runs_in_read_only_transaction_rolled_back [of DEBUG pool db sql t0]
  have "map snd (commands (fst (postgres_query DEBUG pool db sql t0))) =
          [BEGIN_READ_ONLY, sql, ROLLBACK]"
    by simp
  then show ?thesis by (simp add: durable_after_def)
qed

text \<open>
  A string without a statement that begins or ends a transaction changes nothing durably:
  a statement that changes data is refused, and the rest is rolled back.
\<close>

lemma query_without_transaction_control_changes_nothing:
  assumes "pool = Fulfills dc client" and "db 0 BEGIN_READ_ONLY [] = Fulfills d0 r0"
    and "list_all (\<lambda>st. \<not> controls_transaction st) (map classify (statements sql))"
  shows "durable_after (fst (postgres_query DEBUG pool db sql t0)) = []"
proof -
  let ?s1 = "\<lparr>transaction = Read_only, durable = [], pending = []\<rparr>"
  let ?r = "execute_all (map classify (statements sql)) ?s1"
  from read_only_holds [OF assms(3), of ?s1]
  have held: "transaction (fst ?r) = Read_only \<or> transaction (fst ?r) = Aborted"
    and unchanged: "durable (fst ?r) = []"
    by simp_all
  from held have "receive ?s1 sql = fst ?r"
    by (cases ?r) (auto simp: receive_def)
  with held unchanged have "durable (receive (receive ?s1 sql) ROLLBACK) = []"
    by (auto simp: rolled_back)
  with durable_after_query [where pool = pool and db = db, OF assms(1,2)] show ?thesis
    by (simp add: began_read_only)
qed

text \<open>
  C1 does not hold in the code. The tool forwards the string unread, as one message, so
  a string may end the read-only transaction itself: given
  \<open>COMMIT; INSERT INTO departments (department_name) VALUES ('x')\<close> the tool sends
  \<open>BEGIN TRANSACTION READ ONLY\<close>, that string, and \<open>ROLLBACK\<close>; the engine ends the read-only
  transaction at \<open>COMMIT\<close>, runs the \<open>INSERT\<close> outside of it and commits it at the end of
  the message, and the \<open>ROLLBACK\<close> that follows finds nothing to undo. The row is in the
  table after the call, whatever the engine answers to the tool. The \<open>INSERT\<close> alone,
  in the same call, leaves the table unchanged.
\<close>

theorem commit_in_statement_makes_insert_durable:
  "on_client (fst (postgres_query DEBUG (Fulfills dc ())
       (\<lambda>n command values. if n = 1 then answer else Fulfills d [])
       (''COMMIT; '' @ insert_department) t0)) =
     [Client_query ''BEGIN TRANSACTION READ ONLY'' [],
      Client_query ''COMMIT; INSERT INTO departments (department_name) VALUES ('x')'' [],
      Client_query ''ROLLBACK'' [],
      Client_release]
   \<and> durable_after (fst (postgres_query DEBUG (Fulfills dc ())
       (\<lambda>n command values. if n = 1 then answer else Fulfills d [])
       (''COMMIT; '' @ insert_department) t0)) =
     [''INSERT INTO departments (department_name) VALUES ('x')'']
   \<and> durable_after (fst (postgres_query DEBUG (Fulfills dc ())
       (\<lambda>n command values. if n = 1 then answer else Fulfills d [])
       insert_department t0)) = []"
proof -
  let ?db = "\<lambda>(n::nat) (command::string) (values::string list).
               if n = 1 then answer else Fulfills d ([]::row list)"
  have began: "?db 0 BEGIN_READ_ONLY [] = Fulfills d []"
    by simp
  note after = durable_after_query [where pool = "Fulfills dc ()" and db = ?db, OF refl began]
  from query_runs_in_read_only_transaction_rolled_back
         [of DEBUG "Fulfills dc ()" ?db "''COMMIT; '' @ insert_department" t0]
  have sent: "on_client (fst (postgres_query DEBUG (Fulfills dc ()) ?db
                (''COMMIT; '' @ insert_department) t0)) =
     [Client_query ''BEGIN TRANSACTION READ ONLY'' [],
      Client_query ''COMMIT; INSERT INTO departments (department_name) VALUES ('x')'' [],
      Client_query ''ROLLBACK'' [],
      Client_release]"
    by (simp add: BEGIN_READ_ONLY_def ROLLBACK_def insert_department_def)
  have escaped: "durable_after (fst (postgres_query DEBUG (Fulfills dc ()) ?db
                (''COMMIT; '' @ insert_department) t0)) =
     [''INSERT INTO departments (department_name) VALUES ('x')'']"
    unfolding after
    by (simp add: receive_def statements_def trim_def classify_def sql_words_def execute_def
          insert_department_def ROLLBACK_def BEGIN_READ_ONLY_def new_session_def)
  have refused: "durable_after (fst (postgres_query DEBUG (Fulfills dc ()) ?db
                insert_department t0)) = []"
    unfolding after
    by (simp add: receive_def statements_def trim_def classify_def sql_words_def execute_def
          insert_department_def ROLLBACK_def BEGIN_READ_ONLY_def new_session_def)
  from sent escaped refused show ?thesis by blast
qed

subsection \<open>Every tool: the leased connection\<close>

text \<open>
  C2. Whenever a tool has leased a connection, the connection is released exactly once,
  and at the very moment the tool completes, be it with a result or with an error (the
  timeout is one of the errors). A tool that has leased a connection fails to complete in
  one case only, the query tool whose \<open>BEGIN\<close> is never answered, and then nothing has
  been released yet. Without a lease nothing is released.
\<close>

theorem leased_connection_released_exactly_once:
  "(case pool of
      Fulfills dc client \<Rightarrow>
        (case tool DEBUG pool db op t0 of
           (tr, Returned t r) \<Rightarrow> releases tr = [t]
         | (tr, Thrown t e) \<Rightarrow> releases tr = [t]
         | (tr, Never) \<Rightarrow>
             releases tr = [] \<and> db 0 BEGIN_READ_ONLY [] = Pending \<and> (\<exists>sql. op = Postgres_query sql))
    | _ \<Rightarrow> releases (fst (tool DEBUG pool db op t0)) = [])"
proof (cases op)
  case (Postgres_query sql)
  show ?thesis
    unfolding Postgres_query tool.simps postgres_query_def async_defs
    by (cases pool; cases "db 0 BEGIN_READ_ONLY []"; cases "db 1 sql []"; cases "db 2 ROLLBACK []")
       simp_all
next
  case Postgres_list_tables
  show ?thesis
    unfolding Postgres_list_tables tool.simps postgres_list_tables_def async_defs
    by (cases pool; cases "db 0 LIST_TABLES_SQL []") simp_all
next
  case (Postgres_describe_table tableName)
  show ?thesis
    unfolding Postgres_describe_table tool.simps postgres_describe_table_def async_defs
    by (cases pool; cases "db 0 DESCRIBE_TABLE_SQL [tableName]") simp_all
qed

theorem leased_connection_released_exactly_once_witness:
  "releases (fst (tool False (Fulfills 2 ())
       (\<lambda>n command values. Rejects 7 (Error ''relation does not exist''))
       (Postgres_describe_table ''employees'') 100)) = [109]
   \<and> snd (tool False (Fulfills 2 ())
       (\<lambda>n command values. Rejects 7 (Error ''relation does not exist''))
       (Postgres_describe_table ''employees'') 100) = Thrown 109 (Error ''relation does not exist'')"
proof -
  have completion: "snd (tool False (Fulfills 2 ())
       (\<lambda>n command values. Rejects 7 (Error ''relation does not exist''))
       (Postgres_describe_table ''employees'') 100) = Thrown 109 (Error ''relation does not exist'')"
    by (simp add: postgres_describe_table_def async_defs debugLog_def API_TIMEOUT_MS_def)
  from leased_connection_released_exactly_once
    [where pool = "Fulfills 2 ()" and DEBUG = False
       and db = "\<lambda>n command values. Rejects 7 (Error ''relation does not exist'')"
       and op = "Postgres_describe_table ''employees''" and ?t0.0 = 100]
    completion
  show ?thesis by (simp split: prod.splits)
qed

subsection \<open>Every tool: the timeout\<close>

text \<open>
  C3, as the code has it. The 30 second timeout runs from the moment the wrapped database call
  is sent (not from the arrival of the request: leasing the connection and the query
  tool's \<open>BEGIN\<close> are outside it). If that call has not settled 30000 ms later, the tool
  fails at that moment with the error \<open>Timeout after 30000ms: <context>\<close>; nothing is sent
  to cancel the call (the query tool sends its \<open>ROLLBACK\<close>, the other tools send nothing
  more); and the connection is released at that same moment, hence strictly before the
  call in flight returns, if it ever does.
\<close>

theorem timeout_fails_and_releases_at_once:
  assumes sent: "sent_at pool db op t0 = Some ts"
    and late: "timed_out (in_flight db op)"
  shows "snd (tool DEBUG pool db op t0) =
           Thrown (ts + API_TIMEOUT_MS) (timeout_error (timeout_context op))
       \<and> releases (fst (tool DEBUG pool db op t0)) = [ts + API_TIMEOUT_MS]
       \<and> drop (fst (wrapped_call op)) (commands (fst (tool DEBUG pool db op t0))) =
           (ts, fst (snd (wrapped_call op))) #
           (case op of Postgres_query sql \<Rightarrow> [(ts + API_TIMEOUT_MS, ROLLBACK)] | _ \<Rightarrow> [])
       \<and> (\<forall>d. settles_after (in_flight db op) = Some d \<longrightarrow> ts + API_TIMEOUT_MS < ts + d)"
proof (cases op)
  case (Postgres_query sql)
  from sent obtain dc client d0 r0 where
    "pool = Fulfills dc client" "db 0 BEGIN_READ_ONLY [] = Fulfills d0 r0" "ts = t0 + dc + d0"
    unfolding sent_at_def Postgres_query by (auto split: promise.splits)
  with late show ?thesis
    unfolding Postgres_query tool.simps postgres_query_def async_defs timed_out_def
      timeout_error_def in_flight_def
    by (cases "db 1 sql []"; cases "db 2 ROLLBACK []") auto
next
  case Postgres_list_tables
  from sent obtain dc client where "pool = Fulfills dc client" "ts = t0 + dc"
    unfolding sent_at_def Postgres_list_tables by (auto split: promise.splits)
  with late show ?thesis
    unfolding Postgres_list_tables tool.simps postgres_list_tables_def async_defs timed_out_def
      timeout_error_def in_flight_def
    by (cases "db 0 LIST_TABLES_SQL []") auto
next
  case (Postgres_describe_table tableName)
  from sent obtain dc client where "pool = Fulfills dc client" "ts = t0 + dc"
    unfolding sent_at_def Postgres_describe_table by (auto split: promise.splits)
  with late show ?thesis
    unfolding Postgres_describe_table tool.simps postgres_describe_table_def async_defs
      timed_out_def timeout_error_def in_flight_def
    by (cases "db 0 DESCRIBE_TABLE_SQL [tableName]") auto
qed

theorem timeout_fails_and_releases_at_once_witness:
  "sent_at (Fulfills 4 ()) (\<lambda>n command values. if n = 1 then Fulfills 40000 [] else Fulfills 6 [])
       (Postgres_query ''SELECT pg_sleep(40)'') 0 = Some 10
   \<and> timed_out (in_flight (\<lambda>n command values. if n = 1 then Fulfills 40000 [] else Fulfills 6 [])
       (Postgres_query ''SELECT pg_sleep(40)''))
   \<and> snd (tool False (Fulfills 4 ()) (\<lambda>n command values. if n = 1 then Fulfills 40000 [] else Fulfills 6 [])
       (Postgres_query ''SELECT pg_sleep(40)'') 0) =
       Thrown 30010 (Error ''Timeout after 30000ms: Executing SQL query'')
   \<and> releases (fst (tool False (Fulfills 4 ()) (\<lambda>n command values. if n = 1 then Fulfills 40000 [] else Fulfills 6 [])
       (Postgres_query ''SELECT pg_sleep(40)'') 0)) = [30010]
   \<and> drop 1 (commands (fst (tool False (Fulfills 4 ()) (\<lambda>n command values. if n = 1 then Fulfills 40000 [] else Fulfills 6 [])
       (Postgres_query ''SELECT pg_sleep(40)'') 0))) =
       [(10, ''SELECT pg_sleep(40)''), (30010, ''ROLLBACK'')]"
proof -
  let ?db = "\<lambda>(n::nat) (command::string) (values::string list).
               if n = 1 then Fulfills 40000 ([]::row list) else Fulfills 6 []"
  have sent: "sent_at (Fulfills 4 ()) ?db (Postgres_query ''SELECT pg_sleep(40)'') 0 = Some 10"
    by (simp add: sent_at_def)
  have late: "timed_out (in_flight ?db (Postgres_query ''SELECT pg_sleep(40)''))"
    by (simp add: timed_out_def in_flight_def settles_after_def API_TIMEOUT_MS_def)
  from timeout_fails_and_releases_at_once [OF sent late, of False] sent late
  show ?thesis
    by (simp add: timeout_error_def API_TIMEOUT_MS_def ROLLBACK_def)
qed

text \<open>
  C3, as the specification words it, fails twice. First tool call: the catalogue query
  takes 40 s; the connection is released at 30 s, 10 s before the call in flight returns.
  Second tool call: \<open>BEGIN\<close> takes 45 s and the statement 10 ms; the tool has not completed
  within 30 s, and it completes with a result, not with a timeout.
\<close>

theorem release_waits_for_call_in_flight_counterexample:
  "releases (fst (tool False (Fulfills 0 ()) (\<lambda>n command values. Fulfills 40000 [])
       Postgres_list_tables 0)) = [30000]
   \<and> settles_after (in_flight (\<lambda>n command values. Fulfills 40000 []) Postgres_list_tables) = Some 40000
   \<and> snd (tool False (Fulfills 0 ())
       (\<lambda>n command values. if n = 0 then Fulfills 45000 [] else Fulfills 10 [])
       (Postgres_query ''SELECT 1'') 0) = Returned 45010 [Text_block (JSON_stringify (Arr []))]"
  by (simp add: postgres_list_tables_def postgres_query_def async_defs debugLog_def
        in_flight_def API_TIMEOUT_MS_def dec.simps digit_def)

subsection \<open>The describe tool: a table without columns\<close>

text \<open>
  C5. When the catalogue query of the describe tool comes back with no row, the tool
  succeeds, and its response is a single text block saying that the table was not found
  or has no columns: not an empty list and not a failure. A table name that no row of the
  columns catalogue carries, in whatever schema, is such a name.
\<close>

theorem describe_table_without_columns_is_one_text_block:
  "(pool = Fulfills dc client \<and> db 0 DESCRIBE_TABLE_SQL [tableName] = Fulfills d [] \<and> d \<le> API_TIMEOUT_MS
      \<longrightarrow> snd (postgres_describe_table DEBUG pool db tableName t0) =
            Returned (t0 + dc + d) [Text_block (Plain (not_found_text tableName))])
   \<and> (pool = Fulfills dc client \<and> d \<le> API_TIMEOUT_MS
        \<and> (\<forall>c \<in> set (columns cat). table_name c \<noteq> tableName)
      \<longrightarrow> snd (postgres_describe_table DEBUG pool (information_schema cat d) tableName t0) =
            Returned (t0 + dc + d) [Text_block (Plain (not_found_text tableName))])"
proof (intro conjI impI)
  assume "pool = Fulfills dc client \<and> db 0 DESCRIBE_TABLE_SQL [tableName] = Fulfills d [] \<and> d \<le> API_TIMEOUT_MS"
  then show "snd (postgres_describe_table DEBUG pool db tableName t0) =
            Returned (t0 + dc + d) [Text_block (Plain (not_found_text tableName))]"
    unfolding postgres_describe_table_def async_defs not_found_text_def by simp
next
  assume a: "pool = Fulfills dc client \<and> d \<le> API_TIMEOUT_MS
        \<and> (\<forall>c \<in> set (columns cat). table_name c \<noteq> tableName)"
  then have "filter (\<lambda>c. table_name c = tableName) (columns cat) = []"
    by (simp add: filter_empty_conv)
  then have "information_schema cat d 0 DESCRIBE_TABLE_SQL [tableName] = Fulfills d []"
    by (simp add: describe_query_on_catalogue)
  with a show "snd (postgres_describe_table DEBUG pool (information_schema cat d) tableName t0) =
            Returned (t0 + dc + d) [Text_block (Plain (not_found_text tableName))]"
    unfolding postgres_describe_table_def async_defs not_found_text_def by simp
qed

theorem describe_table_without_columns_is_one_text_block_witness:
  "snd (postgres_describe_table False (Fulfills 1 ()) (\<lambda>n command values. Fulfills 20 [])
          ''no_such_table'' 0) =
     Returned 21 [Text_block (Plain (''Table '' @ [CHR 0x27] @ ''no_such_table'' @ [CHR 0x27]
                                      @ '' not found or has no columns.''))]
   \<and> snd (postgres_describe_table False (Fulfills 1 ()) (information_schema catalog_two_schemas 20)
          ''no_such_table'' 0) =
     Returned 21 [Text_block (Plain (''Table '' @ [CHR 0x27] @ ''no_such_table'' @ [CHR 0x27]
                                      @ '' not found or has no columns.''))]"
  using describe_table_without_columns_is_one_text_block
    [where pool = "Fulfills 1 ()" and dc = 1 and client = "()" and d = 20
       and db = "\<lambda>n command values. Fulfills 20 []"
       and cat = catalog_two_schemas and tableName = "''no_such_table''"
       and DEBUG = False and ?t0.0 = 0]
  by (simp add: API_TIMEOUT_MS_def not_found_text_def catalog_two_schemas_def
        departments_columns_def)

subsection \<open>The schema tools on a catalogue\<close>






subsection \<open>The describe tool and the schemas\<close>



subsection \<open>Start-up: where the database URL comes from\<close>

text \<open>
  C8, as the code has it. The connection string is \<open>DATABASE_URL\<close> when the variable is set
  to a non-empty string. When the variable is unset or empty, the first command-line
  argument is used. When the variable is unset or empty and there is no command-line
  argument, the program prints the usage error and exits with code 1, and that is all it
  does: no pool is constructed, no connection is tried, no transport is attached.
\<close>

theorem databaseUrl_from_environment_else_argument:
  "(url \<noteq> [] \<longrightarrow>
      snd (module_init DEBUG (Some url) argv) = Inr url
      \<and> pools_created (fst (module_init DEBUG (Some url) argv)) = [url]
      \<and> exit_codes (fst (module_init DEBUG (Some url) argv)) = [])
   \<and> ((env = None \<or> env = Some []) \<and> drop 2 argv = arg0 # others \<longrightarrow>
      snd (module_init DEBUG env argv) = Inr arg0
      \<and> pools_created (fst (module_init DEBUG env argv)) = [arg0]
      \<and> exit_codes (fst (module_init DEBUG env argv)) = [])
   \<and> ((env = None \<or> env = Some []) \<and> drop 2 argv = [] \<longrightarrow>
      program DEBUG env argv pool attach t =
        (map (Pair t) (debugLog DEBUG ''Environment variables loaded''
                       @ [Console_error usage_message, Process_exit 1]), Never))"
  by (auto simp: module_init_def resolve_databaseUrl_def databaseUrl_from_argv_def program_def
        pools_created_def exit_codes_def debugLog_def)

theorem databaseUrl_from_environment_else_argument_witness:
  "snd (module_init False (Some ''postgresql://db.internal/Employees'')
          [''node'', ''dist/index.js'', ''postgresql://localhost/Employees'']) =
     Inr ''postgresql://db.internal/Employees''
   \<and> snd (module_init False None [''node'', ''dist/index.js'', ''postgresql://localhost/Employees'']) =
     Inr ''postgresql://localhost/Employees''
   \<and> program False None [''node'', ''dist/index.js''] (Fulfills 1 ()) (Fulfills 1 ()) 0 =
     ([(0, Console_error usage_message), (0, Process_exit 1)], Never)"
  using databaseUrl_from_environment_else_argument
          [where url = "''postgresql://db.internal/Employees''" and DEBUG = False
             and argv = "[''node'', ''dist/index.js'', ''postgresql://localhost/Employees'']"
             and env = None and ?arg0.0 = "''postgresql://localhost/Employees''" and others = "[]"]
        databaseUrl_from_environment_else_argument
          [where DEBUG = False and argv = "[''node'', ''dist/index.js'']" and env = None
             and pool = "Fulfills 1 ()" and attach = "Fulfills 1 ()" and t = 0]
  by (simp add: debugLog_def)

text \<open>
  C8, as the specification words it, fails when \<open>DATABASE_URL\<close> is set to the empty
  string: the variable is set, yet the command-line argument is used, and with no
  argument the program exits with code 1.
\<close>

theorem databaseUrl_set_but_empty_counterexample:
  "module_init False (Some '''') [''node'', ''dist/index.js'', ''postgresql://localhost/Employees''] =
     ([Pool_create ''postgresql://localhost/Employees''], Inr ''postgresql://localhost/Employees'')
   \<and> program False (Some '''') [''node'', ''dist/index.js''] (Fulfills 1 ()) (Fulfills 1 ()) 0 =
     ([(0, Console_error usage_message), (0, Process_exit 1)], Never)"
  by (simp add: module_init_def resolve_databaseUrl_def databaseUrl_from_argv_def program_def
        debugLog_def)

text \<open>
  The other exits of start-up: \<open>startServer\<close> exits with code 1 when the verification
  connection or the attachment of the transport is rejected, and not otherwise.
\<close>

lemma startServer_exit_codes:
  "exit_codes (map snd (fst (startServer DEBUG pool attach t))) =
     (case pool of
        Rejects dc e \<Rightarrow> [1]
      | Pending \<Rightarrow> []
      | Fulfills dc client \<Rightarrow> (case attach of Rejects da e \<Rightarrow> [1] | _ \<Rightarrow> []))"
  unfolding startServer_def async_defs
  by (cases pool; cases attach) (simp_all add: exit_codes_def debugLog_def)

subsection \<open>The running process: what the handlers leave unchanged\<close>

lemma does_fields [simp]:
  "connectionState (does evs s) = connectionState s"
  "now (does evs s) = now s"
  "timers (does evs s) = timers s"
  "attaching (does evs s) = attaching s"
  "ending_pool (does evs s) = ending_pool s"
  "closing_transport (does evs s) = closing_transport s"
  "exited (does evs s) = exited s"
  "effects (does evs s) = effects s @ map (Pair (now s)) evs"
  by (simp_all add: does_def)

lemma observed_does [simp]:
  "performed e (does evs s) = performed e s + count_list evs e"
  "exits (does evs s) = exits s @ exit_codes evs"
  "timers_set (does evs s) =
     timers_set s + length (filter (\<lambda>e. case e of Set_timeout _ \<Rightarrow> True | _ \<Rightarrow> False) evs)"
  by (simp_all add: performed_def exits_def timers_set_def exit_codes_def comp_def)

lemma observed_update [simp]:
  "performed e (s\<lparr>connectionState := c\<rparr>) = performed e s"
  "performed e (s\<lparr>now := t\<rparr>) = performed e s"
  "performed e (s\<lparr>timers := ts\<rparr>) = performed e s"
  "performed e (s\<lparr>attaching := n\<rparr>) = performed e s"
  "performed e (s\<lparr>ending_pool := n\<rparr>) = performed e s"
  "performed e (s\<lparr>closing_transport := n\<rparr>) = performed e s"
  "performed e (s\<lparr>exited := x\<rparr>) = performed e s"
  "exits (s\<lparr>connectionState := c\<rparr>) = exits s"
  "exits (s\<lparr>now := t\<rparr>) = exits s"
  "exits (s\<lparr>timers := ts\<rparr>) = exits s"
  "exits (s\<lparr>attaching := n\<rparr>) = exits s"
  "exits (s\<lparr>ending_pool := n\<rparr>) = exits s"
  "exits (s\<lparr>closing_transport := n\<rparr>) = exits s"
  "exits (s\<lparr>exited := x\<rparr>) = exits s"
  "timers_set (s\<lparr>connectionState := c\<rparr>) = timers_set s"
  "timers_set (s\<lparr>now := t\<rparr>) = timers_set s"
  "timers_set (s\<lparr>timers := ts\<rparr>) = timers_set s"
  "timers_set (s\<lparr>attaching := n\<rparr>) = timers_set s"
  "timers_set (s\<lparr>ending_pool := n\<rparr>) = timers_set s"
  "timers_set (s\<lparr>closing_transport := n\<rparr>) = timers_set s"
  "timers_set (s\<lparr>exited := x\<rparr>) = timers_set s"
  by (simp_all add: performed_def exits_def timers_set_def)

lemma logs_are_not_teardown [simp]:
  "count_list (debugLog DEBUG msg) Pool_end = 0"
  "count_list (debugLog DEBUG msg) Transport_close = 0"
  "count_list (debugLog DEBUG msg) Server_connect = 0"
  "count_list (handleError error context) Pool_end = 0"
  "count_list (handleError error context) Transport_close = 0"
  "count_list (handleError error context) Server_connect = 0"
  "exit_codes (debugLog DEBUG msg) = []"
  "exit_codes (handleError error context) = []"
  "filter (\<lambda>e. case e of Set_timeout _ \<Rightarrow> True | _ \<Rightarrow> False) (debugLog DEBUG msg) = []"
  "filter (\<lambda>e. case e of Set_timeout _ \<Rightarrow> True | _ \<Rightarrow> False) (handleError error context) = []"
  by (simp_all add: debugLog_def handleError_def exit_codes_def)

lemma exit_codes_simps [simp]:
  "exit_codes [] = []"
  "exit_codes (e # es) = (case e of Process_exit c \<Rightarrow> c # exit_codes es | _ \<Rightarrow> exit_codes es)"
  "exit_codes (es @ es') = exit_codes es @ exit_codes es'"
  by (simp_all add: exit_codes_def split: event.splits)

subsection \<open>The running process: the invariant\<close>

lemmas stages = shutdown_not_called_def awaiting_pool_end_def awaiting_transport_close_def
  has_exited_def

lemma consistent_started: "consistent (started t0)"
  by (simp add: consistent_def stages started_def performed_def exits_def timers_set_def
        MAX_RECONNECT_ATTEMPTS_def)

lemma consistent_shutdown:
  assumes "consistent s" and "exited s = None"
  shows "consistent (shutdown DEBUG s)"
  using assms unfolding consistent_def stages shutdown_def
  by (auto split: if_splits)

lemma consistent_does_log:
  assumes "consistent s"
    and "count_list evs Pool_end = 0" and "count_list evs Transport_close = 0"
    and "count_list evs Server_connect = 0" and "exit_codes evs = []"
    and "filter (\<lambda>e. case e of Set_timeout _ \<Rightarrow> True | _ \<Rightarrow> False) evs = []"
  shows "consistent (does evs s)"
  using assms unfolding consistent_def stages by simp

lemma consistent_transport_onerror:
  assumes "consistent s" and "exited s = None"
  shows "consistent (transport_onerror DEBUG error s)"
proof (cases "reconnectAttempts (connectionState s) < MAX_RECONNECT_ATTEMPTS")
  case True
  with assms show ?thesis
    unfolding consistent_def stages transport_onerror_def Let_def
    by (auto split: if_splits)
next
  case False
  have "consistent (does (debugLog DEBUG ''Max reconnection attempts reached, shutting down'')
                      (does (handleError error ''Transport error'') s))"
    by (intro consistent_does_log assms) simp_all
  then have "consistent (shutdown DEBUG
                      (does (debugLog DEBUG ''Max reconnection attempts reached, shutting down'')
                        (does (handleError error ''Transport error'') s)))"
    by (rule consistent_shutdown) (simp add: assms)
  with False show ?thesis
    unfolding transport_onerror_def Let_def by simp
qed

lemma consistent_step:
  assumes "consistent s"
  shows "consistent (step DEBUG s x)"
proof (cases "exited s = None")
  case False
  then show ?thesis using assms by (simp add: step_def)
next
  case live: True
  show ?thesis
  proof (cases x)
    case (Elapse d)
    with assms live show ?thesis
      unfolding step_def consistent_def stages by simp
  next
    case (Signal sig)
    with consistent_shutdown [OF assms live] live show ?thesis
      by (simp add: step_def)
  next
    case (UncaughtException error)
    have "consistent (does (handleError error ''Uncaught Exception'') s)"
      by (intro consistent_does_log assms) simp_all
    then have "consistent (shutdown DEBUG (does (handleError error ''Uncaught Exception'') s))"
      by (rule consistent_shutdown) (simp add: live)
    with UncaughtException live show ?thesis
      by (simp add: step_def)
  next
    case (UnhandledRejection reason)
    have "consistent (does [Log_rejection reason] s)"
      by (intro consistent_does_log assms) simp_all
    then have "consistent (shutdown DEBUG (does [Log_rejection reason] s))"
      by (rule consistent_shutdown) (simp add: live)
    with UnhandledRejection live show ?thesis
      by (simp add: step_def)
  next
    case (Transport_error error)
    with consistent_transport_onerror [OF assms live] live show ?thesis
      by (simp add: step_def)
  next
    case (Transport_message requested)
    with assms live show ?thesis
      unfolding step_def transport_onmessage_def Let_def consistent_def stages
      by simp
  next
    case Heartbeat_interval
    have "consistent (does (debugLog DEBUG ''No heartbeat received, attempting reconnection'') s)"
      by (intro consistent_does_log assms) simp_all
    then have "consistent (transport_onerror DEBUG (Error ''Heartbeat timeout'')
            (does (debugLog DEBUG ''No heartbeat received, attempting reconnection'') s))"
      by (rule consistent_transport_onerror) (simp add: live)
    with Heartbeat_interval assms live show ?thesis
      by (simp add: step_def heartbeatCheck_def Let_def)
  next
    case Timer_fires
    with assms live show ?thesis
      unfolding step_def reconnect_def consistent_def stages
      by (auto split: list.splits if_splits)
  next
    case (Server_connect_settled r)
    show ?thesis
    proof (cases "attaching s = 0")
      case True
      with Server_connect_settled assms live show ?thesis by (simp add: step_def)
    next
      case waiting: False
      let ?s = "s\<lparr>attaching := attaching s - 1\<rparr>"
      from assms waiting have resumed: "consistent ?s"
        unfolding consistent_def stages by auto
      show ?thesis
      proof (cases r)
        case Resolved
        with resumed Server_connect_settled waiting live show ?thesis
          unfolding step_def reconnect_after_connect_def consistent_def stages
          by simp
      next
        case (Rejected reconnectError)
        have logged: "consistent (does (handleError reconnectError ''Reconnection failed'') ?s)"
          by (intro consistent_does_log resumed) simp_all
        then have "consistent (does (debugLog DEBUG ''Max reconnection attempts reached, shutting down'')
                     (does (handleError reconnectError ''Reconnection failed'') ?s))"
          by (intro consistent_does_log resumed) simp_all
        then have "consistent (shutdown DEBUG
                     (does (debugLog DEBUG ''Max reconnection attempts reached, shutting down'')
                       (does (handleError reconnectError ''Reconnection failed'') ?s)))"
          by (rule consistent_shutdown) (simp add: live)
        with logged Rejected Server_connect_settled waiting live show ?thesis
          by (simp add: step_def reconnect_after_connect_def Let_def)
      qed
    qed
  next
    case (Pool_end_settled r)
    with assms live show ?thesis
      unfolding step_def shutdown_after_pool_end_def consistent_def stages
      by (cases r) (auto split: if_splits)
  next
    case (Transport_close_settled r)
    with assms live show ?thesis
      unfolding step_def shutdown_after_transport_close_def consistent_def stages
      by (cases r) (auto split: if_splits)
  qed
qed

lemma consistent_run:
  assumes "consistent s"
  shows "consistent (run DEBUG s xs)"
  using assms unfolding run_def
  by (induction xs arbitrary: s) (simp_all add: consistent_step)


subsection \<open>The running process: progress of the shutdown\<close>

lemmas handlers = shutdown_def shutdown_after_pool_end_def shutdown_after_transport_close_def
  transport_onerror_def reconnect_def reconnect_after_connect_def transport_onmessage_def
  heartbeatCheck_def



lemma shutdown_sets_flag: "isShuttingDown (connectionState (shutdown DEBUG s))"
  by (simp add: shutdown_def)

lemma flag_stays_shutdown:
  "isShuttingDown (connectionState s) \<Longrightarrow> isShuttingDown (connectionState (shutdown DEBUG s))"
  by (simp add: shutdown_def)

lemma flag_stays_transport_onerror:
  "isShuttingDown (connectionState s) \<Longrightarrow>
   isShuttingDown (connectionState (transport_onerror DEBUG error s))"
  by (simp add: transport_onerror_def Let_def shutdown_def)

lemma flag_stays_step:
  assumes "isShuttingDown (connectionState s)"
  shows "isShuttingDown (connectionState (step DEBUG s x))"
proof (cases "exited s = None")
  case False
  with assms show ?thesis by (simp add: step_def)
next
  case True
  with assms show ?thesis
    by (cases x)
       (auto simp: step_def flag_stays_shutdown flag_stays_transport_onerror heartbeatCheck_def
          Let_def transport_onmessage_def reconnect_def reconnect_after_connect_def
          shutdown_after_pool_end_def shutdown_after_transport_close_def
          split: list.splits settlement.splits)
qed




lemma transport_close_settled_advances:
  assumes "awaiting_transport_close s \<or> has_exited s"
  shows "has_exited (step DEBUG s (Transport_close_settled r))"
  using assms unfolding stages step_def shutdown_after_transport_close_def
  by (cases r) auto

text \<open>The effects only grow, so a teardown step that has been performed stays performed.\<close>

lemma effects_grow_step: "\<exists>es. effects (step DEBUG s x) = effects s @ es"
proof (cases "exited s = None")
  case False
  then show ?thesis by (simp add: step_def)
next
  case True
  then show ?thesis
    by (cases x)
       (auto simp: step_def handlers Let_def split: list.splits settlement.splits)
qed

lemma performed_mono_step: "performed e s \<le> performed e (step DEBUG s x)"
proof -
  from effects_grow_step obtain es where "effects (step DEBUG s x) = effects s @ es" by blast
  then show ?thesis by (simp add: performed_def)
qed




lemma calls_shutdown_sets_flag:
  assumes "calls_shutdown s x"
  shows "isShuttingDown (connectionState (step DEBUG s x))"
  using assms
  by (cases x)
     (auto simp: calls_shutdown_def step_def shutdown_sets_flag transport_onerror_def Let_def
        heartbeatCheck_def heartbeat_timed_out_def reconnect_after_connect_def
        split: settlement.splits)

subsection \<open>Shutdown runs once\<close>



subsection \<open>The process from its start: the stages of the shutdown\<close>

lemmas staged_stages = staged_def shutdown_not_called_def awaiting_pool_end_def
  awaiting_transport_close_def has_exited_def

lemma consistent_staged: "consistent s \<Longrightarrow> staged s"
  by (simp add: consistent_def staged_def)

lemma staged_shutdown:
  assumes "staged s" and "exited s = None"
  shows "staged (shutdown DEBUG s)"
  using assms unfolding staged_stages shutdown_def
  by (auto split: if_splits)

lemma staged_does_log:
  assumes "staged s"
    and "count_list evs Pool_end = 0" and "count_list evs Transport_close = 0"
    and "exit_codes evs = []"
  shows "staged (does evs s)"
  using assms unfolding staged_stages by simp

lemma staged_transport_onerror:
  assumes "staged s" and "exited s = None"
  shows "staged (transport_onerror DEBUG error s)"
proof (cases "reconnectAttempts (connectionState s) < MAX_RECONNECT_ATTEMPTS")
  case True
  with assms show ?thesis
    unfolding staged_stages transport_onerror_def Let_def
    by (auto split: if_splits)
next
  case False
  have "staged (does (debugLog DEBUG ''Max reconnection attempts reached, shutting down'')
                  (does (handleError error ''Transport error'') s))"
    by (intro staged_does_log assms) simp_all
  then have "staged (shutdown DEBUG
                  (does (debugLog DEBUG ''Max reconnection attempts reached, shutting down'')
                    (does (handleError error ''Transport error'') s)))"
    by (rule staged_shutdown) (simp add: assms)
  with False show ?thesis
    unfolding transport_onerror_def Let_def by simp
qed

lemma staged_step:
  assumes "staged s"
  shows "staged (step DEBUG s x)"
proof (cases "exited s = None")
  case False
  then show ?thesis using assms by (simp add: step_def)
next
  case live: True
  show ?thesis
  proof (cases x)
    case (Elapse d)
    with assms live show ?thesis
      unfolding step_def staged_stages by simp
  next
    case (Signal sig)
    with staged_shutdown [OF assms live] live show ?thesis
      by (simp add: step_def)
  next
    case (UncaughtException error)
    have "staged (does (handleError error ''Uncaught Exception'') s)"
      by (intro staged_does_log assms) simp_all
    then have "staged (shutdown DEBUG (does (handleError error ''Uncaught Exception'') s))"
      by (rule staged_shutdown) (simp add: live)
    with UncaughtException live show ?thesis
      by (simp add: step_def)
  next
    case (UnhandledRejection reason)
    have "staged (does [Log_rejection reason] s)"
      by (intro staged_does_log assms) simp_all
    then have "staged (shutdown DEBUG (does [Log_rejection reason] s))"
      by (rule staged_shutdown) (simp add: live)
    with UnhandledRejection live show ?thesis
      by (simp add: step_def)
  next
    case (Transport_error error)
    with staged_transport_onerror [OF assms live] live show ?thesis
      by (simp add: step_def)
  next
    case (Transport_message requested)
    with assms live show ?thesis
      unfolding step_def transport_onmessage_def Let_def staged_stages
      by simp
  next
    case Heartbeat_interval
    have "staged (does (debugLog DEBUG ''No heartbeat received, attempting reconnection'') s)"
      by (intro staged_does_log assms) simp_all
    then have "staged (transport_onerror DEBUG (Error ''Heartbeat timeout'')
            (does (debugLog DEBUG ''No heartbeat received, attempting reconnection'') s))"
      by (rule staged_transport_onerror) (simp add: live)
    with Heartbeat_interval assms live show ?thesis
      by (simp add: step_def heartbeatCheck_def Let_def)
  next
    case Timer_fires
    with assms live show ?thesis
      unfolding step_def reconnect_def staged_stages
      by (auto split: list.splits if_splits)
  next
    case (Server_connect_settled r)
    show ?thesis
    proof (cases "attaching s = 0")
      case True
      with Server_connect_settled assms live show ?thesis by (simp add: step_def)
    next
      case waiting: False
      let ?s = "s\<lparr>attaching := attaching s - 1\<rparr>"
      from assms have resumed: "staged ?s"
        unfolding staged_stages by auto
      show ?thesis
      proof (cases r)
        case Resolved
        with resumed Server_connect_settled waiting live show ?thesis
          unfolding step_def reconnect_after_connect_def staged_stages
          by simp
      next
        case (Rejected reconnectError)
        have logged: "staged (does (handleError reconnectError ''Reconnection failed'') ?s)"
          by (intro staged_does_log resumed) simp_all
        then have "staged (does (debugLog DEBUG ''Max reconnection attempts reached, shutting down'')
                     (does (handleError reconnectError ''Reconnection failed'') ?s))"
          by (intro staged_does_log resumed) simp_all
        then have "staged (shutdown DEBUG
                     (does (debugLog DEBUG ''Max reconnection attempts reached, shutting down'')
                       (does (handleError reconnectError ''Reconnection failed'') ?s)))"
          by (rule staged_shutdown) (simp add: live)
        with logged Rejected Server_connect_settled waiting live show ?thesis
          by (simp add: step_def reconnect_after_connect_def Let_def)
      qed
    qed
  next
    case (Pool_end_settled r)
    with assms live show ?thesis
      unfolding step_def shutdown_after_pool_end_def staged_stages
      by (cases r) (auto split: if_splits)
  next
    case (Transport_close_settled r)
    with assms live show ?thesis
      unfolding step_def shutdown_after_transport_close_def staged_stages
      by (cases r) (auto split: if_splits)
  qed
qed

lemma staged_flag_cases:
  assumes "staged s" and "isShuttingDown (connectionState s)"
  shows "awaiting_pool_end s \<or> awaiting_transport_close s \<or> has_exited s"
  using assms unfolding staged_stages by auto

subsection \<open>The process from its start: the invariant and the progress of the shutdown\<close>

lemmas startup_steps = startServer_after_pool_connect_def startServer_after_server_connect_def

lemma lifetime_run_append:
  "lifetime_run DEBUG l (xs @ ys) = lifetime_run DEBUG (lifetime_run DEBUG l xs) ys"
  by (simp add: lifetime_run_def)

lemma lifetime_step_exited: "exited (proc l) \<noteq> None \<Longrightarrow> lifetime_step DEBUG l x = l"
  by (simp add: lifetime_step_def)

lemma lifetime_run_exited: "exited (proc l) \<noteq> None \<Longrightarrow> lifetime_run DEBUG l xs = l"
  unfolding lifetime_run_def by (induction xs) (simp_all add: lifetime_step_exited)

lemma lifetime_step_handler [simp]:
  "proc (lifetime_step DEBUG l (Handler y)) = step DEBUG (proc l) y"
  "phase (lifetime_step DEBUG l (Handler y)) = phase l"
  by (simp_all add: lifetime_step_def step_def)

lemma orderly_loaded: "orderly (loaded DEBUG t0)"
  by (simp add: orderly_def staged_stages loaded_def started_def performed_def exits_def
        debugLog_def exit_codes_def does_def)

lemma orderly_step:
  assumes "orderly l"
  shows "orderly (lifetime_step DEBUG l x)"
proof (cases "exited (proc l) = None")
  case False
  then show ?thesis using assms by (simp add: lifetime_step_def)
next
  case live: True
  with assms have s: "staged (proc l)"
    by (auto simp: orderly_def startup_failed_def)
  with live have none: "exits (proc l) = []"
    and few: "performed Pool_end (proc l) \<le> 1" "performed Transport_close (proc l) \<le> 1"
    unfolding staged_stages by auto
  show ?thesis
  proof (cases x)
    case (Handler y)
    with staged_step [OF s, of DEBUG y] live show ?thesis
      by (simp add: orderly_def lifetime_step_def)
  next
    case (Verification_settled r)
    show ?thesis
    proof (cases "phase l = Verifying")
      case False
      with Verification_settled assms live show ?thesis by (simp add: lifetime_step_def)
    next
      case True
      show ?thesis
      proof (cases r)
        case Resolved
        have "staged (does (Client_release # debugLog DEBUG ''Database connection verified''
                 @ debugLog DEBUG ''Connecting to MCP transport...'' @ [Server_connect]) (proc l))"
          by (intro staged_does_log s) simp_all
        with Resolved Verification_settled True live show ?thesis
          by (simp add: orderly_def lifetime_step_def startup_steps)
      next
        case (Rejected error)
        with Verification_settled True live none few show ?thesis
          by (simp add: orderly_def startup_failed_def lifetime_step_def startup_steps)
      qed
    qed
  next
    case (Attachment_settled r)
    show ?thesis
    proof (cases "phase l = Attaching")
      case False
      with Attachment_settled assms live show ?thesis by (simp add: lifetime_step_def)
    next
      case True
      show ?thesis
      proof (cases r)
        case Resolved
        have "staged (does (debugLog DEBUG ''MCP server connected and ready''
                 @ debugLog DEBUG ''Server startup complete'') (proc l))"
          by (intro staged_does_log s) simp_all
        with Resolved Attachment_settled True live show ?thesis
          by (simp add: orderly_def lifetime_step_def startup_steps)
      next
        case (Rejected error)
        with Attachment_settled True live none few show ?thesis
          by (simp add: orderly_def startup_failed_def lifetime_step_def startup_steps)
      qed
    qed
  qed
qed

lemma orderly_run:
  assumes "orderly l"
  shows "orderly (lifetime_run DEBUG l xs)"
  using assms unfolding lifetime_run_def
  by (induction xs arbitrary: l) (simp_all add: orderly_step)

text \<open>
  While no call of \<open>startServer\<close> fails, or once it has completed, a stimulus leaves the
  process at a stage of the shutdown.
\<close>

lemma undisturbed_step:
  assumes "staged (proc l)" and "phase l = Running \<or> \<not> startup_fails x"
  shows "staged (proc (lifetime_step DEBUG l x))"
    and "phase l = Running \<Longrightarrow> phase (lifetime_step DEBUG l x) = Running"
proof -
  show "phase l = Running \<Longrightarrow> phase (lifetime_step DEBUG l x) = Running"
    by (cases x) (simp_all add: lifetime_step_def)
  show "staged (proc (lifetime_step DEBUG l x))"
  proof (cases "exited (proc l) = None")
    case False
    with assms(1) show ?thesis by (simp add: lifetime_step_def)
  next
    case live: True
    show ?thesis
    proof (cases x)
      case (Handler y)
      with staged_step [OF assms(1), of DEBUG y] show ?thesis by simp
    next
      case (Verification_settled r)
      have "staged (does (Client_release # debugLog DEBUG ''Database connection verified''
               @ debugLog DEBUG ''Connecting to MCP transport...'' @ [Server_connect]) (proc l))"
        by (intro staged_does_log assms(1)) simp_all
      with Verification_settled assms live show ?thesis
        by (cases r) (auto simp: lifetime_step_def startup_steps)
    next
      case (Attachment_settled r)
      have "staged (does (debugLog DEBUG ''MCP server connected and ready''
               @ debugLog DEBUG ''Server startup complete'') (proc l))"
        by (intro staged_does_log assms(1)) simp_all
      with Attachment_settled assms live show ?thesis
        by (cases r) (auto simp: lifetime_step_def startup_steps)
    qed
  qed
qed

lemma lifetime_flag_stays_step:
  assumes "isShuttingDown (connectionState (proc l))"
  shows "isShuttingDown (connectionState (proc (lifetime_step DEBUG l x)))"
proof (cases x)
  case (Handler y)
  with flag_stays_step [OF assms, of DEBUG y] show ?thesis by simp
next
  case (Verification_settled r)
  with assms show ?thesis
    by (cases r) (simp_all add: lifetime_step_def startup_steps)
next
  case (Attachment_settled r)
  with assms show ?thesis
    by (cases r) (simp_all add: lifetime_step_def startup_steps)
qed

lemma lifetime_performed_mono_step:
  "performed e (proc l) \<le> performed e (proc (lifetime_step DEBUG l x))"
proof (cases x)
  case (Handler y)
  with performed_mono_step [of e "proc l" DEBUG y] show ?thesis by simp
next
  case (Verification_settled r)
  then show ?thesis
    by (cases r) (simp_all add: lifetime_step_def startup_steps)
next
  case (Attachment_settled r)
  then show ?thesis
    by (cases r) (simp_all add: lifetime_step_def startup_steps)
qed

lemma undisturbed_run:
  assumes "staged (proc l)" and "phase l = Running \<or> \<not> list_ex startup_fails xs"
  shows "staged (proc (lifetime_run DEBUG l xs))
         \<and> (phase l = Running \<longrightarrow> phase (lifetime_run DEBUG l xs) = Running)"
  using assms unfolding lifetime_run_def
proof (induction xs arbitrary: l)
  case Nil
  then show ?case by simp
next
  case (Cons x xs)
  from Cons.prems have here: "phase l = Running \<or> \<not> startup_fails x"
    and later: "phase l = Running \<or> \<not> list_ex startup_fails xs"
    by auto
  from undisturbed_step [OF Cons.prems(1) here, of DEBUG] later
  have "staged (proc (lifetime_step DEBUG l x))"
    and "phase (lifetime_step DEBUG l x) = Running \<or> \<not> list_ex startup_fails xs"
    and "phase l = Running \<longrightarrow> phase (lifetime_step DEBUG l x) = Running"
    by auto
  with Cons.IH [of "lifetime_step DEBUG l x"] show ?case by simp
qed

lemma lifetime_flag_stays_run:
  assumes "isShuttingDown (connectionState (proc l))"
  shows "isShuttingDown (connectionState (proc (lifetime_run DEBUG l xs)))"
  using assms unfolding lifetime_run_def
  by (induction xs arbitrary: l) (simp_all add: lifetime_flag_stays_step)

lemma lifetime_past_pool_end_run:
  assumes "staged (proc l)" and "phase l = Running \<or> \<not> list_ex startup_fails xs"
    and "awaiting_transport_close (proc l) \<or> has_exited (proc l)"
  shows "awaiting_transport_close (proc (lifetime_run DEBUG l xs))
         \<or> has_exited (proc (lifetime_run DEBUG l xs))"
  using assms unfolding lifetime_run_def
proof (induction xs arbitrary: l)
  case Nil
  then show ?case by simp
next
  case (Cons x xs)
  let ?l = "lifetime_step DEBUG l x"
  from Cons.prems have here: "phase l = Running \<or> \<not> startup_fails x"
    and later: "phase l = Running \<or> \<not> list_ex startup_fails xs"
    by auto
  from undisturbed_step [OF Cons.prems(1) here, of DEBUG] later
  have s: "staged (proc ?l)" and u: "phase ?l = Running \<or> \<not> list_ex startup_fails xs"
    by auto
  from Cons.prems(3) have flag: "isShuttingDown (connectionState (proc l))"
    and closed: "performed Transport_close (proc l) = 1"
    unfolding staged_stages by auto
  from staged_flag_cases [OF s lifetime_flag_stays_step [OF flag]]
  have "awaiting_pool_end (proc ?l) \<or> awaiting_transport_close (proc ?l) \<or> has_exited (proc ?l)" .
  moreover have "1 \<le> performed Transport_close (proc ?l)"
    using lifetime_performed_mono_step [of Transport_close l DEBUG x] closed by simp
  ultimately have "awaiting_transport_close (proc ?l) \<or> has_exited (proc ?l)"
    unfolding staged_stages by auto
  with Cons.IH [OF s u] show ?case by simp
qed

text \<open>
  Once \<open>shutdown\<close> has been called, and unless a call of \<open>startServer\<close> fails before the
  end, the process has exited with code 0 as soon as \<open>pool.end()\<close> and then
  \<open>transport.close()\<close> have settled.
\<close>

lemma lifetime_shutdown_completes:
  assumes "staged (proc l)" and "isShuttingDown (connectionState (proc l))"
    and "phase l = Running \<or> \<not> list_ex startup_fails (ys @ zs)"
  shows "has_exited (proc (lifetime_run DEBUG l
           (ys @ [Handler (Pool_end_settled r1)] @ zs @ [Handler (Transport_close_settled r2)] @ ws)))"
proof -
  let ?l1 = "lifetime_run DEBUG l ys"
  let ?l2 = "lifetime_step DEBUG ?l1 (Handler (Pool_end_settled r1))"
  let ?l3 = "lifetime_run DEBUG ?l2 zs"
  let ?l4 = "lifetime_step DEBUG ?l3 (Handler (Transport_close_settled r2))"
  from assms(3) have uy: "phase l = Running \<or> \<not> list_ex startup_fails ys"
    and uz: "phase l = Running \<or> \<not> list_ex startup_fails zs"
    by auto
  from undisturbed_run [OF assms(1) uy, of DEBUG]
  have s1: "staged (proc ?l1)" and p1: "phase l = Running \<longrightarrow> phase ?l1 = Running"
    by auto
  have f1: "isShuttingDown (connectionState (proc ?l1))"
    by (rule lifetime_flag_stays_run [OF assms(2)])
  from staged_flag_cases [OF s1 f1]
  have a2: "awaiting_transport_close (proc ?l2) \<or> has_exited (proc ?l2)"
    unfolding staged_stages
    by (cases r1) (auto simp: step_def shutdown_after_pool_end_def)
  have s2: "staged (proc ?l2)"
    using staged_step [OF s1, of DEBUG "Pool_end_settled r1"] by simp
  from p1 uz have u2: "phase ?l2 = Running \<or> \<not> list_ex startup_fails zs"
    by auto
  from lifetime_past_pool_end_run [OF s2 u2 a2]
  have "awaiting_transport_close (proc ?l3) \<or> has_exited (proc ?l3)" .
  then have e4: "has_exited (proc ?l4)"
    using transport_close_settled_advances [of "proc ?l3" DEBUG r2] by simp
  then have "exited (proc ?l4) \<noteq> None" by (simp add: has_exited_def)
  then have "lifetime_run DEBUG ?l4 ws = ?l4" by (rule lifetime_run_exited)
  moreover have "lifetime_run DEBUG l
      (ys @ [Handler (Pool_end_settled r1)] @ zs @ [Handler (Transport_close_settled r2)] @ ws) =
      lifetime_run DEBUG ?l4 ws"
    by (simp add: lifetime_run_def)
  ultimately show ?thesis using e4 by simp
qed

text \<open>
  The two views of start-up agree: left alone, the process does what \<open>startServer\<close> does,
  in the same order.
\<close>

lemma startup_alone_is_startServer:
  "map snd (effects (proc (lifetime_run DEBUG (loaded DEBUG t0)
      [Verification_settled r1, Attachment_settled r2]))) =
   map snd (fst (startServer DEBUG (settling r1 d1) (settling r2 d2) t))"
  by (cases r1; cases r2)
     (simp_all add: lifetime_run_def lifetime_step_def startup_steps loaded_def started_def
        startServer_def async_defs settling_def does_def debugLog_def)

subsection \<open>Shutdown exits with code 0, unless start-up fails first\<close>

text \<open>
  C10, as the specification words it, fails while \<open>startServer\<close> is still waiting. A
  termination signal arrives while the database is being verified: \<open>shutdown\<close> is called
  and waits for \<open>pool.end()\<close>; then \<open>pool.connect()\<close> is rejected, and the \<open>catch\<close> block of
  \<open>startServer\<close> logs the error and exits with code 1. The shutdown that was invoked never
  reaches its \<open>process.exit(0)\<close>, whatever settles afterwards. The same happens when the
  attachment of the transport fails after a signal.
\<close>

theorem shutdown_during_startup_exits_with_code_1_counterexample:
  "calls_shutdown (proc (loaded False 0)) (Signal SIGTERM)
   \<and> isShuttingDown (connectionState (proc (lifetime_run False (loaded False 0)
        [Handler (Signal SIGTERM)])))
   \<and> effects (proc (lifetime_run False (loaded False 0)
        [Handler (Signal SIGTERM),
         Verification_settled (Rejected (Error ''connect ECONNREFUSED''))])) =
       [(0, Pool_connect),
        (0, Pool_end),
        (0, Log_error ''Failed to verify database connection'' (Error ''connect ECONNREFUSED'')),
        (0, Log_stack (Error ''connect ECONNREFUSED'')),
        (0, Process_exit 1)]
   \<and> exited (proc (lifetime_run False (loaded False 0)
        [Handler (Signal SIGTERM),
         Verification_settled (Rejected (Error ''connect ECONNREFUSED'')),
         Handler (Pool_end_settled Resolved),
         Handler (Transport_close_settled Resolved)])) = Some 1
   \<and> exits (proc (lifetime_run False (loaded False 0)
        [Handler (Signal SIGTERM),
         Verification_settled (Rejected (Error ''connect ECONNREFUSED'')),
         Handler (Pool_end_settled Resolved),
         Handler (Transport_close_settled Resolved)])) = [1]
   \<and> exits (proc (lifetime_run False (loaded False 0)
        [Verification_settled Resolved,
         Handler (Signal SIGINT),
         Handler (Pool_end_settled Resolved),
         Attachment_settled (Rejected (Error ''transport'')),
         Handler (Transport_close_settled Resolved)])) = [1]"
  by (simp add: calls_shutdown_def loaded_def started_def lifetime_run_def lifetime_step_def
        startup_steps step_def shutdown_def shutdown_after_pool_end_def
        shutdown_after_transport_close_def does_def debugLog_def handleError_def exits_def
        exit_codes_def)

text \<open>
  C10, as the code has it. Over the whole life of the process, from the moment the module
  is loaded: the process exits at most once, with code 0 or 1, and with code 1 only out
  of \<open>startServer\<close>, before start-up has completed. Whatever makes the source call
  \<open>shutdown\<close> (a signal, an uncaught exception, an unhandled rejection, a transport error,
  a heartbeat timeout or a failed reattachment once the attempts are used up), and
  whether \<open>pool.end()\<close> and \<open>transport.close()\<close> resolve or reject: if start-up has
  completed, or if neither of the two calls \<open>startServer\<close> waits for fails in the
  meantime, then when \<open>pool.end()\<close> and \<open>transport.close()\<close> have both settled, whatever
  else happens in between, the process has exited, once, with code 0. A rejection of
  \<open>pool.end()\<close> or \<open>transport.close()\<close> adds the two lines of \<open>handleError\<close> to the effects
  and changes nothing else.
\<close>

theorem shutdown_exits_with_code_0_unless_startup_fails:
  "(exits (proc (lifetime_run DEBUG (loaded DEBUG t0) xs)) = []
      \<or> exits (proc (lifetime_run DEBUG (loaded DEBUG t0) xs)) = [0]
      \<or> exits (proc (lifetime_run DEBUG (loaded DEBUG t0) xs)) = [1])
   \<and> (phase (lifetime_run DEBUG (loaded DEBUG t0) xs) = Running \<longrightarrow>
        exits (proc (lifetime_run DEBUG (loaded DEBUG t0) xs)) \<noteq> [1])
   \<and> (calls_shutdown (proc (lifetime_run DEBUG (loaded DEBUG t0) xs)) x \<longrightarrow>
        (\<forall>ys r1 zs r2 ws.
           phase (lifetime_run DEBUG (loaded DEBUG t0) xs) = Running
             \<or> \<not> list_ex startup_fails (ys @ zs) \<longrightarrow>
           exited (proc (lifetime_run DEBUG (loaded DEBUG t0)
             (xs @ [Handler x] @ ys @ [Handler (Pool_end_settled r1)] @ zs
                @ [Handler (Transport_close_settled r2)] @ ws))) = Some 0
           \<and> exits (proc (lifetime_run DEBUG (loaded DEBUG t0)
             (xs @ [Handler x] @ ys @ [Handler (Pool_end_settled r1)] @ zs
                @ [Handler (Transport_close_settled r2)] @ ws))) = [0]))
   \<and> (awaiting_pool_end (proc (lifetime_run DEBUG (loaded DEBUG t0) xs)) \<longrightarrow>
        effects (proc (lifetime_run DEBUG (loaded DEBUG t0)
          (xs @ [Handler (Pool_end_settled r1), Handler (Transport_close_settled r2)]))) =
          effects (proc (lifetime_run DEBUG (loaded DEBUG t0) xs)) @
          map (Pair (now (proc (lifetime_run DEBUG (loaded DEBUG t0) xs))))
            ((case r1 of
                Resolved \<Rightarrow> debugLog DEBUG ''Database pool closed successfully''
              | Rejected error \<Rightarrow> handleError error ''Database pool closure failed'')
             @ [Transport_close]
             @ (case r2 of
                  Resolved \<Rightarrow> debugLog DEBUG ''Transport closed successfully''
                | Rejected error \<Rightarrow> handleError error ''Transport closure failed'')
             @ [Process_exit 0]))"
proof -
  let ?l = "lifetime_run DEBUG (loaded DEBUG t0) xs"
  have o: "orderly ?l"
    by (rule orderly_run [OF orderly_loaded])
  then have codes: "exits (proc ?l) = [] \<or> exits (proc ?l) = [0] \<or> exits (proc ?l) = [1]"
    and only_startup: "phase ?l = Running \<longrightarrow> exits (proc ?l) \<noteq> [1]"
    unfolding orderly_def startup_failed_def staged_stages by auto
  have completes: "\<forall>ys r1 zs r2 ws.
           phase ?l = Running \<or> \<not> list_ex startup_fails (ys @ zs) \<longrightarrow>
           exited (proc (lifetime_run DEBUG (loaded DEBUG t0)
             (xs @ [Handler x] @ ys @ [Handler (Pool_end_settled r1)] @ zs
                @ [Handler (Transport_close_settled r2)] @ ws))) = Some 0
           \<and> exits (proc (lifetime_run DEBUG (loaded DEBUG t0)
             (xs @ [Handler x] @ ys @ [Handler (Pool_end_settled r1)] @ zs
                @ [Handler (Transport_close_settled r2)] @ ws))) = [0]"
    if call: "calls_shutdown (proc ?l) x"
  proof (intro allI impI)
    fix ys r1 zs r2 ws
    assume undisturbed: "phase ?l = Running \<or> \<not> list_ex startup_fails (ys @ zs)"
    let ?called = "lifetime_step DEBUG ?l (Handler x)"
    from call have live: "exited (proc ?l) = None"
      by (simp add: calls_shutdown_def)
    with o have "staged (proc ?l)"
      by (auto simp: orderly_def startup_failed_def)
    then have "staged (proc ?called)"
      using staged_step [of "proc ?l" DEBUG x] by simp
    moreover have "isShuttingDown (connectionState (proc ?called))"
      using calls_shutdown_sets_flag [OF call, of DEBUG] by simp
    moreover from undisturbed
    have "phase ?called = Running \<or> \<not> list_ex startup_fails (ys @ zs)"
      by simp
    ultimately have "has_exited (proc (lifetime_run DEBUG ?called
        (ys @ [Handler (Pool_end_settled r1)] @ zs @ [Handler (Transport_close_settled r2)] @ ws)))"
      by (rule lifetime_shutdown_completes)
    moreover have "lifetime_run DEBUG (loaded DEBUG t0)
        (xs @ [Handler x] @ ys @ [Handler (Pool_end_settled r1)] @ zs
           @ [Handler (Transport_close_settled r2)] @ ws) =
        lifetime_run DEBUG ?called
          (ys @ [Handler (Pool_end_settled r1)] @ zs @ [Handler (Transport_close_settled r2)] @ ws)"
      by (simp add: lifetime_run_def)
    ultimately show "exited (proc (lifetime_run DEBUG (loaded DEBUG t0)
             (xs @ [Handler x] @ ys @ [Handler (Pool_end_settled r1)] @ zs
                @ [Handler (Transport_close_settled r2)] @ ws))) = Some 0
           \<and> exits (proc (lifetime_run DEBUG (loaded DEBUG t0)
             (xs @ [Handler x] @ ys @ [Handler (Pool_end_settled r1)] @ zs
                @ [Handler (Transport_close_settled r2)] @ ws))) = [0]"
      by (simp add: has_exited_def)
  qed
  have teardown: "effects (proc (lifetime_run DEBUG (loaded DEBUG t0)
          (xs @ [Handler (Pool_end_settled r1), Handler (Transport_close_settled r2)]))) =
          effects (proc ?l) @
          map (Pair (now (proc ?l)))
            ((case r1 of
                Resolved \<Rightarrow> debugLog DEBUG ''Database pool closed successfully''
              | Rejected error \<Rightarrow> handleError error ''Database pool closure failed'')
             @ [Transport_close]
             @ (case r2 of
                  Resolved \<Rightarrow> debugLog DEBUG ''Transport closed successfully''
                | Rejected error \<Rightarrow> handleError error ''Transport closure failed'')
             @ [Process_exit 0])"
    if "awaiting_pool_end (proc ?l)"
  proof -
    have "proc (lifetime_run DEBUG (loaded DEBUG t0)
            (xs @ [Handler (Pool_end_settled r1), Handler (Transport_close_settled r2)])) =
          step DEBUG (step DEBUG (proc ?l) (Pool_end_settled r1)) (Transport_close_settled r2)"
      by (simp add: lifetime_run_def)
    with that show ?thesis
      unfolding awaiting_pool_end_def step_def shutdown_after_pool_end_def
        shutdown_after_transport_close_def
      by simp
  qed
  from codes only_startup completes teardown show ?thesis by blast
qed

theorem shutdown_exits_with_code_0_unless_startup_fails_witness:
  "phase (lifetime_run False (loaded False 0)
      [Verification_settled Resolved, Attachment_settled Resolved]) = Running
   \<and> calls_shutdown (proc (lifetime_run False (loaded False 0)
      [Verification_settled Resolved, Attachment_settled Resolved]))
        (UncaughtException (Error ''bug''))
   \<and> exited (proc (lifetime_run False (loaded False 0)
       [Verification_settled Resolved, Attachment_settled Resolved,
        Handler (UncaughtException (Error ''bug'')), Handler (Signal SIGTERM),
        Verification_settled (Rejected (Error ''late'')),
        Handler (Pool_end_settled (Rejected (Error ''pool''))),
        Handler (Transport_close_settled (Rejected (Error ''transport'')))])) = Some 0
   \<and> exits (proc (lifetime_run False (loaded False 0)
       [Verification_settled Resolved, Attachment_settled Resolved,
        Handler (UncaughtException (Error ''bug'')), Handler (Signal SIGTERM),
        Verification_settled (Rejected (Error ''late'')),
        Handler (Pool_end_settled (Rejected (Error ''pool''))),
        Handler (Transport_close_settled (Rejected (Error ''transport'')))])) = [0]
   \<and> calls_shutdown (proc (lifetime_run False (loaded False 0) [])) (Signal SIGINT)
   \<and> exits (proc (lifetime_run False (loaded False 0)
       [Handler (Signal SIGINT), Verification_settled Resolved,
        Handler (Pool_end_settled Resolved), Attachment_settled Resolved,
        Handler (Transport_close_settled Resolved)])) = [0]
   \<and> awaiting_pool_end (proc (lifetime_run False (loaded False 0) [Handler (Signal SIGTERM)]))
   \<and> effects (proc (lifetime_run False (loaded False 0)
       [Handler (Signal SIGTERM), Handler (Pool_end_settled (Rejected (Error ''pool''))),
        Handler (Transport_close_settled Resolved)])) =
       [(0, Pool_connect),
        (0, Pool_end),
        (0, Log_error ''Database pool closure failed'' (Error ''pool'')),
        (0, Log_stack (Error ''pool'')),
        (0, Transport_close),
        (0, Process_exit 0)]"
proof -
  let ?up = "[Verification_settled Resolved, Attachment_settled Resolved]"
  have up: "lifetime_run False (loaded False 0) ?up =
      \<lparr>phase = Running, proc = (started 0)\<lparr>effects := [(0, Pool_connect), (0, Client_release), (0, Server_connect)]\<rparr>\<rparr>"
    by (simp add: lifetime_run_def lifetime_step_def startup_steps loaded_def started_def
          does_def debugLog_def)
  then have running: "phase (lifetime_run False (loaded False 0) ?up) = Running"
    by simp
  from up have call: "calls_shutdown (proc (lifetime_run False (loaded False 0) ?up))
        (UncaughtException (Error ''bug''))"
    by (simp add: calls_shutdown_def started_def)
  have early: "calls_shutdown (proc (lifetime_run False (loaded False 0) [])) (Signal SIGINT)"
    by (simp add: calls_shutdown_def lifetime_run_def loaded_def started_def does_def)
  have first: "proc (lifetime_run False (loaded False 0) [Handler (Signal SIGTERM)]) =
      (started 0)\<lparr>connectionState := (connectionState (started 0))\<lparr>isShuttingDown := True\<rparr>,
                   ending_pool := 1, effects := [(0, Pool_connect), (0, Pool_end)]\<rparr>"
    by (simp add: lifetime_run_def loaded_def step_def shutdown_def started_def does_def debugLog_def)
  then have waiting: "awaiting_pool_end (proc (lifetime_run False (loaded False 0) [Handler (Signal SIGTERM)]))"
    by (simp add: awaiting_pool_end_def performed_def exits_def exit_codes_def started_def)
  from shutdown_exits_with_code_0_unless_startup_fails
         [where DEBUG = False and ?t0.0 = 0 and xs = ?up and x = "UncaughtException (Error ''bug'')"]
       call
  have "\<forall>ys r1 zs r2 ws.
           phase (lifetime_run False (loaded False 0) ?up) = Running
             \<or> \<not> list_ex startup_fails (ys @ zs) \<longrightarrow>
           exited (proc (lifetime_run False (loaded False 0)
             (?up @ [Handler (UncaughtException (Error ''bug''))] @ ys
                @ [Handler (Pool_end_settled r1)] @ zs
                @ [Handler (Transport_close_settled r2)] @ ws))) = Some 0
           \<and> exits (proc (lifetime_run False (loaded False 0)
             (?up @ [Handler (UncaughtException (Error ''bug''))] @ ys
                @ [Handler (Pool_end_settled r1)] @ zs
                @ [Handler (Transport_close_settled r2)] @ ws))) = [0]"
    by blast
  from this [rule_format, of "[Handler (Signal SIGTERM), Verification_settled (Rejected (Error ''late''))]"
               "[]" "Rejected (Error ''pool'')" "Rejected (Error ''transport'')" "[]"] running
  have fatal: "exited (proc (lifetime_run False (loaded False 0)
       [Verification_settled Resolved, Attachment_settled Resolved,
        Handler (UncaughtException (Error ''bug'')), Handler (Signal SIGTERM),
        Verification_settled (Rejected (Error ''late'')),
        Handler (Pool_end_settled (Rejected (Error ''pool''))),
        Handler (Transport_close_settled (Rejected (Error ''transport'')))])) = Some 0
     \<and> exits (proc (lifetime_run False (loaded False 0)
       [Verification_settled Resolved, Attachment_settled Resolved,
        Handler (UncaughtException (Error ''bug'')), Handler (Signal SIGTERM),
        Verification_settled (Rejected (Error ''late'')),
        Handler (Pool_end_settled (Rejected (Error ''pool''))),
        Handler (Transport_close_settled (Rejected (Error ''transport'')))])) = [0]"
    by simp
  from shutdown_exits_with_code_0_unless_startup_fails
         [where DEBUG = False and ?t0.0 = 0 and xs = "[]" and x = "Signal SIGINT"]
       early
  have "\<forall>ys r1 zs r2 ws.
           phase (lifetime_run False (loaded False 0) []) = Running
             \<or> \<not> list_ex startup_fails (ys @ zs) \<longrightarrow>
           exits (proc (lifetime_run False (loaded False 0)
             ([] @ [Handler (Signal SIGINT)] @ ys
                @ [Handler (Pool_end_settled r1)] @ zs
                @ [Handler (Transport_close_settled r2)] @ ws))) = [0]"
    by blast
  from this [rule_format, of "[Verification_settled Resolved]" "[Attachment_settled Resolved]"
               Resolved Resolved "[]"]
  have during: "exits (proc (lifetime_run False (loaded False 0)
       [Handler (Signal SIGINT), Verification_settled Resolved,
        Handler (Pool_end_settled Resolved), Attachment_settled Resolved,
        Handler (Transport_close_settled Resolved)])) = [0]"
    by simp
  from shutdown_exits_with_code_0_unless_startup_fails
         [where DEBUG = False and ?t0.0 = 0 and xs = "[Handler (Signal SIGTERM)]"
            and ?r1.0 = "Rejected (Error ''pool'')" and ?r2.0 = Resolved] waiting
  have "effects (proc (lifetime_run False (loaded False 0)
          ([Handler (Signal SIGTERM)]
             @ [Handler (Pool_end_settled (Rejected (Error ''pool''))),
                Handler (Transport_close_settled Resolved)]))) =
        effects (proc (lifetime_run False (loaded False 0) [Handler (Signal SIGTERM)])) @
          map (Pair (now (proc (lifetime_run False (loaded False 0) [Handler (Signal SIGTERM)]))))
            (handleError (Error ''pool'') ''Database pool closure failed''
             @ [Transport_close] @ debugLog False ''Transport closed successfully'' @ [Process_exit 0])"
    by simp
  with first have swallowed: "effects (proc (lifetime_run False (loaded False 0)
       [Handler (Signal SIGTERM), Handler (Pool_end_settled (Rejected (Error ''pool''))),
        Handler (Transport_close_settled Resolved)])) =
       [(0, Pool_connect),
        (0, Pool_end),
        (0, Log_error ''Database pool closure failed'' (Error ''pool'')),
        (0, Log_stack (Error ''pool'')),
        (0, Transport_close),
        (0, Process_exit 0)]"
    by (simp add: handleError_def debugLog_def started_def)
  from running call fatal early during waiting swallowed show ?thesis by blast
qed

subsection \<open>Bounded reconnection\<close>

lemma onerror_below_maximum:
  assumes "exited s = None" and "reconnectAttempts (connectionState s) < MAX_RECONNECT_ATTEMPTS"
  shows "step DEBUG s (Transport_error error) =
           (does (debugLog DEBUG (''Attempting reconnection (''
                    @ dec (reconnectAttempts (connectionState s) + 1)
                    @ ''/'' @ dec MAX_RECONNECT_ATTEMPTS @ '')...'')
                  @ [Set_timeout RECONNECT_DELAY_MS])
              ((does (handleError error ''Transport error'') s)
                 \<lparr>connectionState := (connectionState s)
                    \<lparr>reconnectAttempts := reconnectAttempts (connectionState s) + 1\<rparr>\<rparr>))
           \<lparr>timers := timers s @ [now s + RECONNECT_DELAY_MS]\<rparr>"
  using assms by (simp add: step_def transport_onerror_def Let_def)

lemma onerror_at_maximum:
  assumes "exited s = None" and "MAX_RECONNECT_ATTEMPTS \<le> reconnectAttempts (connectionState s)"
  shows "step DEBUG s (Transport_error error) =
           shutdown DEBUG
             (does (debugLog DEBUG ''Max reconnection attempts reached, shutting down'')
                (does (handleError error ''Transport error'') s))"
  using assms by (simp add: step_def transport_onerror_def Let_def)

lemma timers_set_step:
  "timers_set (step DEBUG s x) = timers_set s + (if schedules_reconnection s x then 1 else 0)"
proof (cases "exited s = None")
  case False
  then show ?thesis by (simp add: step_def schedules_reconnection_def)
next
  case True
  then show ?thesis
    by (cases x)
       (auto simp: step_def schedules_reconnection_def handlers Let_def heartbeat_timed_out_def
          split: list.splits settlement.splits)
qed

text \<open>
  C7. In a state of the running process, a transport error while the counter is below the
  maximum of 5 adds one to the counter and sets one timer, due 1000 ms later, and does not
  call \<open>shutdown\<close>; at the maximum it calls \<open>shutdown\<close> and sets no timer. A heartbeat
  check that finds the connection marked connected and the last heartbeat more than
  10000 ms old does exactly what a transport error does; otherwise it does nothing. A timer
  leads to one call of \<open>server.connect\<close>, and not before it is due. When that call
  resolves, the counter is back at zero; when it rejects, \<open>shutdown\<close> is called if the
  counter has reached the maximum, and nothing more happens otherwise. In every run, a
  timer is set by these stimuli and by no other, one each; every timer set is either still
  pending or has led to exactly one call of \<open>server.connect\<close>; and the counter never
  exceeds the maximum.
\<close>

theorem reconnection_is_bounded_and_one_attempt_per_event:
  assumes live: "exited s = None"
  shows
   "MAX_RECONNECT_ATTEMPTS = 5 \<and> RECONNECT_DELAY_MS = 1000
    \<and> (reconnectAttempts (connectionState s) < MAX_RECONNECT_ATTEMPTS \<longrightarrow>
         reconnectAttempts (connectionState (step DEBUG s (Transport_error error))) =
           reconnectAttempts (connectionState s) + 1
         \<and> timers (step DEBUG s (Transport_error error)) = timers s @ [now s + RECONNECT_DELAY_MS]
         \<and> timers_set (step DEBUG s (Transport_error error)) = timers_set s + 1
         \<and> performed Server_connect (step DEBUG s (Transport_error error)) = performed Server_connect s
         \<and> performed Pool_end (step DEBUG s (Transport_error error)) = performed Pool_end s
         \<and> isShuttingDown (connectionState (step DEBUG s (Transport_error error))) =
             isShuttingDown (connectionState s))
    \<and> (MAX_RECONNECT_ATTEMPTS \<le> reconnectAttempts (connectionState s) \<longrightarrow>
         step DEBUG s (Transport_error error) =
           shutdown DEBUG
             (does (debugLog DEBUG ''Max reconnection attempts reached, shutting down'')
                (does (handleError error ''Transport error'') s))
         \<and> isShuttingDown (connectionState (step DEBUG s (Transport_error error)))
         \<and> timers (step DEBUG s (Transport_error error)) = timers s
         \<and> reconnectAttempts (connectionState (step DEBUG s (Transport_error error))) =
             reconnectAttempts (connectionState s))
    \<and> (heartbeat_timed_out s \<longrightarrow>
         step DEBUG s Heartbeat_interval =
           step DEBUG (does (debugLog DEBUG ''No heartbeat received, attempting reconnection'') s)
             (Transport_error (Error ''Heartbeat timeout'')))
    \<and> (\<not> heartbeat_timed_out s \<longrightarrow> step DEBUG s Heartbeat_interval = s)
    \<and> (\<forall>due later. timers s = due # later \<longrightarrow>
         (due \<le> now s \<longrightarrow>
            step DEBUG s Timer_fires = reconnect (s\<lparr>timers := later\<rparr>)
            \<and> performed Server_connect (step DEBUG s Timer_fires) = performed Server_connect s + 1
            \<and> attaching (step DEBUG s Timer_fires) = attaching s + 1
            \<and> timers (step DEBUG s Timer_fires) = later)
         \<and> (now s < due \<longrightarrow> step DEBUG s Timer_fires = s))
    \<and> (0 < attaching s \<longrightarrow>
         reconnectAttempts (connectionState (step DEBUG s (Server_connect_settled Resolved))) = 0
         \<and> isConnected (connectionState (step DEBUG s (Server_connect_settled Resolved)))
         \<and> isShuttingDown (connectionState (step DEBUG s (Server_connect_settled Resolved))) =
             isShuttingDown (connectionState s)
         \<and> (MAX_RECONNECT_ATTEMPTS \<le> reconnectAttempts (connectionState s) \<longrightarrow>
              step DEBUG s (Server_connect_settled (Rejected reconnectError)) =
                shutdown DEBUG
                  (does (debugLog DEBUG ''Max reconnection attempts reached, shutting down'')
                     (does (handleError reconnectError ''Reconnection failed'')
                        (s\<lparr>attaching := attaching s - 1\<rparr>)))
              \<and> isShuttingDown (connectionState
                    (step DEBUG s (Server_connect_settled (Rejected reconnectError)))))
         \<and> (reconnectAttempts (connectionState s) < MAX_RECONNECT_ATTEMPTS \<longrightarrow>
              step DEBUG s (Server_connect_settled (Rejected reconnectError)) =
                does (handleError reconnectError ''Reconnection failed'')
                  (s\<lparr>attaching := attaching s - 1\<rparr>)))
    \<and> timers_set (step DEBUG s x) = timers_set s + (if schedules_reconnection s x then 1 else 0)
    \<and> timers_set (run DEBUG (started t0) xs) =
         length (timers (run DEBUG (started t0) xs)) + performed Server_connect (run DEBUG (started t0) xs)
    \<and> reconnectAttempts (connectionState (run DEBUG (started t0) xs)) \<le> MAX_RECONNECT_ATTEMPTS"
proof -
  have constants: "MAX_RECONNECT_ATTEMPTS = 5 \<and> RECONNECT_DELAY_MS = 1000"
    by (simp add: MAX_RECONNECT_ATTEMPTS_def RECONNECT_DELAY_MS_def)
  have below: "reconnectAttempts (connectionState (step DEBUG s (Transport_error error))) =
           reconnectAttempts (connectionState s) + 1
         \<and> timers (step DEBUG s (Transport_error error)) = timers s @ [now s + RECONNECT_DELAY_MS]
         \<and> timers_set (step DEBUG s (Transport_error error)) = timers_set s + 1
         \<and> performed Server_connect (step DEBUG s (Transport_error error)) = performed Server_connect s
         \<and> performed Pool_end (step DEBUG s (Transport_error error)) = performed Pool_end s
         \<and> isShuttingDown (connectionState (step DEBUG s (Transport_error error))) =
             isShuttingDown (connectionState s)"
    if "reconnectAttempts (connectionState s) < MAX_RECONNECT_ATTEMPTS"
    unfolding onerror_below_maximum [OF live that] by simp
  have at_max: "step DEBUG s (Transport_error error) =
           shutdown DEBUG
             (does (debugLog DEBUG ''Max reconnection attempts reached, shutting down'')
                (does (handleError error ''Transport error'') s))
         \<and> isShuttingDown (connectionState (step DEBUG s (Transport_error error)))
         \<and> timers (step DEBUG s (Transport_error error)) = timers s
         \<and> reconnectAttempts (connectionState (step DEBUG s (Transport_error error))) =
             reconnectAttempts (connectionState s)"
    if "MAX_RECONNECT_ATTEMPTS \<le> reconnectAttempts (connectionState s)"
    unfolding onerror_at_maximum [OF live that] by (simp add: shutdown_def)
  have beat: "step DEBUG s Heartbeat_interval =
           step DEBUG (does (debugLog DEBUG ''No heartbeat received, attempting reconnection'') s)
             (Transport_error (Error ''Heartbeat timeout''))"
    if "heartbeat_timed_out s"
    using that live by (simp add: step_def heartbeatCheck_def heartbeat_timed_out_def Let_def)
  have no_beat: "step DEBUG s Heartbeat_interval = s" if "\<not> heartbeat_timed_out s"
    using that live by (auto simp: step_def heartbeatCheck_def heartbeat_timed_out_def Let_def)
  have timer: "\<forall>due later. timers s = due # later \<longrightarrow>
         (due \<le> now s \<longrightarrow>
            step DEBUG s Timer_fires = reconnect (s\<lparr>timers := later\<rparr>)
            \<and> performed Server_connect (step DEBUG s Timer_fires) = performed Server_connect s + 1
            \<and> attaching (step DEBUG s Timer_fires) = attaching s + 1
            \<and> timers (step DEBUG s Timer_fires) = later)
         \<and> (now s < due \<longrightarrow> step DEBUG s Timer_fires = s)"
    using live by (simp add: step_def reconnect_def)
  have settled: "reconnectAttempts (connectionState (step DEBUG s (Server_connect_settled Resolved))) = 0
         \<and> isConnected (connectionState (step DEBUG s (Server_connect_settled Resolved)))
         \<and> isShuttingDown (connectionState (step DEBUG s (Server_connect_settled Resolved))) =
             isShuttingDown (connectionState s)
         \<and> (MAX_RECONNECT_ATTEMPTS \<le> reconnectAttempts (connectionState s) \<longrightarrow>
              step DEBUG s (Server_connect_settled (Rejected reconnectError)) =
                shutdown DEBUG
                  (does (debugLog DEBUG ''Max reconnection attempts reached, shutting down'')
                     (does (handleError reconnectError ''Reconnection failed'')
                        (s\<lparr>attaching := attaching s - 1\<rparr>)))
              \<and> isShuttingDown (connectionState
                    (step DEBUG s (Server_connect_settled (Rejected reconnectError)))))
         \<and> (reconnectAttempts (connectionState s) < MAX_RECONNECT_ATTEMPTS \<longrightarrow>
              step DEBUG s (Server_connect_settled (Rejected reconnectError)) =
                does (handleError reconnectError ''Reconnection failed'')
                  (s\<lparr>attaching := attaching s - 1\<rparr>))"
    if "0 < attaching s"
    using that live by (simp add: step_def reconnect_after_connect_def Let_def shutdown_def)
  have c: "consistent (run DEBUG (started t0) xs)"
    by (rule consistent_run [OF consistent_started])
  then have global: "timers_set (run DEBUG (started t0) xs) =
         length (timers (run DEBUG (started t0) xs)) + performed Server_connect (run DEBUG (started t0) xs)
    \<and> reconnectAttempts (connectionState (run DEBUG (started t0) xs)) \<le> MAX_RECONNECT_ATTEMPTS"
    by (simp add: consistent_def)
  from constants below at_max beat no_beat timer settled timers_set_step [of DEBUG s x] global
  show ?thesis by blast
qed

theorem reconnection_is_bounded_and_one_attempt_per_event_witness:
  "exited (started 0) = None
   \<and> reconnectAttempts (connectionState (step False (started 0) (Transport_error (Error ''EPIPE'')))) = 1
   \<and> timers (step False (started 0) (Transport_error (Error ''EPIPE''))) = [1000]
   \<and> step False (started 0) Heartbeat_interval = started 0
   \<and> heartbeat_timed_out (run False (started 0) [Transport_message (Some ''initialize''), Elapse 10001])
   \<and> timers (step False (run False (started 0) [Transport_message (Some ''initialize''), Elapse 10001])
        Heartbeat_interval) = [11001]
   \<and> step False (run False (started 0) [Transport_error (Error ''EPIPE''), Elapse 999]) Timer_fires =
        run False (started 0) [Transport_error (Error ''EPIPE''), Elapse 999]
   \<and> performed Server_connect
        (step False (run False (started 0) [Transport_error (Error ''EPIPE''), Elapse 1000]) Timer_fires) = 1
   \<and> reconnectAttempts (connectionState
        (step False (run False (started 0) [Transport_error (Error ''EPIPE''), Elapse 1000, Timer_fires])
           (Server_connect_settled Resolved))) = 0
   \<and> isShuttingDown (connectionState
        (step False (run False (started 0) [Transport_error (Error ''EPIPE''), Elapse 1000, Timer_fires])
           (Server_connect_settled (Rejected (Error ''closed''))))) = False
   \<and> reconnectAttempts (connectionState (run False (started 0)
        [Transport_error (Error ''EPIPE''), Transport_error (Error ''EPIPE''),
         Transport_error (Error ''EPIPE''), Transport_error (Error ''EPIPE''),
         Transport_error (Error ''EPIPE'')])) = 5
   \<and> isShuttingDown (connectionState (step False (run False (started 0)
        [Transport_error (Error ''EPIPE''), Transport_error (Error ''EPIPE''),
         Transport_error (Error ''EPIPE''), Transport_error (Error ''EPIPE''),
         Transport_error (Error ''EPIPE'')]) (Transport_error (Error ''EPIPE''))))
   \<and> isShuttingDown (connectionState (step False (run False (started 0)
        [Transport_error (Error ''EPIPE''), Transport_error (Error ''EPIPE''),
         Transport_error (Error ''EPIPE''), Transport_error (Error ''EPIPE''),
         Transport_error (Error ''EPIPE''), Elapse 1000, Timer_fires])
        (Server_connect_settled (Rejected (Error ''closed'')))))"
proof -
  let ?e = "Transport_error (Error ''EPIPE'')"
  let ?late = "run False (started 0) [Transport_message (Some ''initialize''), Elapse 10001]"
  let ?early = "run False (started 0) [?e, Elapse 999]"
  let ?due = "run False (started 0) [?e, Elapse 1000]"
  let ?tried = "run False (started 0) [?e, Elapse 1000, Timer_fires]"
  let ?s5 = "run False (started 0) [?e, ?e, ?e, ?e, ?e]"
  let ?last = "run False (started 0) [?e, ?e, ?e, ?e, ?e, Elapse 1000, Timer_fires]"
  note evaluate = run_def step_def transport_onerror_def transport_onmessage_def reconnect_def
    Let_def started_def does_def debugLog_def handleError_def
    MAX_RECONNECT_ATTEMPTS_def RECONNECT_DELAY_MS_def HEARTBEAT_INTERVAL_MS_def
  have live0: "exited (started 0) = None"
    and below0: "reconnectAttempts (connectionState (started 0)) < MAX_RECONNECT_ATTEMPTS"
    and quiet0: "\<not> heartbeat_timed_out (started 0)"
    by (simp_all add: started_def MAX_RECONNECT_ATTEMPTS_def heartbeat_timed_out_def)
  have late: "exited ?late = None" "heartbeat_timed_out ?late" "timers ?late = []" "now ?late = 10001"
    "reconnectAttempts (connectionState ?late) < MAX_RECONNECT_ATTEMPTS"
    by (simp_all add: evaluate heartbeat_timed_out_def)
  have early: "exited ?early = None" "timers ?early = [1000]" "now ?early = 999"
    by (simp_all add: evaluate)
  have due: "exited ?due = None" "timers ?due = [1000]" "now ?due = 1000"
    "performed Server_connect ?due = 0"
    by (simp_all add: evaluate performed_def)
  have tried: "exited ?tried = None" "0 < attaching ?tried"
    "reconnectAttempts (connectionState ?tried) < MAX_RECONNECT_ATTEMPTS"
    "isShuttingDown (connectionState ?tried) = False"
    by (simp_all add: evaluate)
  have s5: "exited ?s5 = None" "reconnectAttempts (connectionState ?s5) = 5"
    by (simp_all add: evaluate)
  have last: "exited ?last = None" "0 < attaching ?last"
    "MAX_RECONNECT_ATTEMPTS \<le> reconnectAttempts (connectionState ?last)"
    by (simp_all add: evaluate)
  from reconnection_is_bounded_and_one_attempt_per_event
         [OF live0, where DEBUG = False and error = "Error ''EPIPE''"] below0 quiet0
  have first: "reconnectAttempts (connectionState (step False (started 0) ?e)) =
           reconnectAttempts (connectionState (started 0)) + 1
        \<and> timers (step False (started 0) ?e) = timers (started 0) @ [now (started 0) + RECONNECT_DELAY_MS]
        \<and> step False (started 0) Heartbeat_interval = started 0"
    by blast
  from reconnection_is_bounded_and_one_attempt_per_event [OF late(1), where DEBUG = False] late(2)
  have "step False ?late Heartbeat_interval =
          step False (does (debugLog False ''No heartbeat received, attempting reconnection'') ?late)
            (Transport_error (Error ''Heartbeat timeout''))"
    by blast
  moreover have "exited (does (debugLog False ''No heartbeat received, attempting reconnection'') ?late) = None"
    using late(1) by simp
  from reconnection_is_bounded_and_one_attempt_per_event
         [OF this, where DEBUG = False and error = "Error ''Heartbeat timeout''"] late(5)
  have "timers (step False (does (debugLog False ''No heartbeat received, attempting reconnection'') ?late)
            (Transport_error (Error ''Heartbeat timeout''))) =
        timers (does (debugLog False ''No heartbeat received, attempting reconnection'') ?late)
          @ [now (does (debugLog False ''No heartbeat received, attempting reconnection'') ?late)
             + RECONNECT_DELAY_MS]"
    by simp
  ultimately have beat: "timers (step False ?late Heartbeat_interval) = [11001]"
    using late(3,4) by (simp add: RECONNECT_DELAY_MS_def)
  from reconnection_is_bounded_and_one_attempt_per_event [OF early(1), where DEBUG = False]
  have "\<forall>due later. timers ?early = due # later \<longrightarrow>
          (now ?early < due \<longrightarrow> step False ?early Timer_fires = ?early)"
    by blast
  with early(2,3) have too_early: "step False ?early Timer_fires = ?early"
    by simp
  from reconnection_is_bounded_and_one_attempt_per_event [OF due(1), where DEBUG = False]
  have "\<forall>due later. timers ?due = due # later \<longrightarrow>
          (due \<le> now ?due \<longrightarrow>
             performed Server_connect (step False ?due Timer_fires) = performed Server_connect ?due + 1)"
    by blast
  with due(2,3,4) have attempt: "performed Server_connect (step False ?due Timer_fires) = 1"
    by simp
  from reconnection_is_bounded_and_one_attempt_per_event
         [OF tried(1), where DEBUG = False and reconnectError = "Error ''closed''"] tried(2,3)
  have "reconnectAttempts (connectionState (step False ?tried (Server_connect_settled Resolved))) = 0
      \<and> step False ?tried (Server_connect_settled (Rejected (Error ''closed''))) =
          does (handleError (Error ''closed'') ''Reconnection failed'')
            (?tried\<lparr>attaching := attaching ?tried - 1\<rparr>)"
    by blast
  with tried(4) have settled:
    "reconnectAttempts (connectionState (step False ?tried (Server_connect_settled Resolved))) = 0"
    "isShuttingDown (connectionState
        (step False ?tried (Server_connect_settled (Rejected (Error ''closed''))))) = False"
    by simp_all
  from s5 have at_max5: "MAX_RECONNECT_ATTEMPTS \<le> reconnectAttempts (connectionState ?s5)"
    by (simp add: MAX_RECONNECT_ATTEMPTS_def)
  from reconnection_is_bounded_and_one_attempt_per_event
         [OF s5(1), where DEBUG = False and error = "Error ''EPIPE''"] at_max5
  have sixth: "isShuttingDown (connectionState (step False ?s5 ?e))"
    by blast
  from reconnection_is_bounded_and_one_attempt_per_event
         [OF last(1), where DEBUG = False and reconnectError = "Error ''closed''"] last(2,3)
  have final: "isShuttingDown (connectionState
        (step False ?last (Server_connect_settled (Rejected (Error ''closed'')))))"
    by blast
  from live0 first late(2) beat too_early attempt settled s5(2) sixth final show ?thesis
    by (simp add: started_def RECONNECT_DELAY_MS_def)
qed

end
